theory Spec2Isabelle
  imports Main "HOL-Library.Sublist"
begin

section \<open>Text helpers: template literals and decimal numbers\<close>

text \<open>
  The coordinator builds every name and report with JavaScript template literals. A
  number interpolated into a template literal is rendered in decimal (the iteration
  counter and the job counts stay far below the range where JavaScript switches to
  exponent notation: the loop stops at \<open>CONFIG.maxIterations\<close>).
\<close>

definition digit_char :: "nat \<Rightarrow> char" where
  "digit_char d = ''0123456789'' ! d"

definition is_digit :: "char \<Rightarrow> bool" where
  "is_digit c = (c \<in> set ''0123456789'')"

definition digit_val :: "char \<Rightarrow> nat" where
  "digit_val c = length (takeWhile (\<lambda>d. d \<noteq> c) ''0123456789'')"

fun show_nat :: "nat \<Rightarrow> string" where
  "show_nat n = (if n < 10 then [digit_char n] else show_nat (n div 10) @ [digit_char (n mod 10)])"

declare show_nat.simps [simp del]

text \<open>\<open>Array.prototype.join\<close>.\<close>

fun join :: "string \<Rightarrow> string list \<Rightarrow> string" where
  "join sep [] = []"
| "join sep [x] = x"
| "join sep (x # y # ys) = x @ sep @ join sep (y # ys)"

text \<open>
  The regular-expression class \<open>\s\<close> on the ASCII range: space, tab, line feed,
  vertical tab, form feed, carriage return.
\<close>

definition is_space :: "char \<Rightarrow> bool" where
  "is_space c = (c \<in> set [CHR '' '', CHR 0x09, CHR 0x0A, CHR 0x0B, CHR 0x0C, CHR 0x0D])"

text \<open>
  \<open>parseInt\<close> on a string: leading white space is skipped, then the longest run of
  decimal digits is read; no digit at all gives \<open>NaN\<close> (here \<open>None\<close>). Signs and
  radix prefixes are left out: the only caller passes the \<open>(\d+)\<close> group of a match.
\<close>

definition parse_digits :: "string \<Rightarrow> nat" where
  "parse_digits s = foldl (\<lambda>a c. 10 * a + digit_val c) 0 s"

definition parseInt :: "string \<Rightarrow> nat option" where
  "parseInt s =
     (let ds = takeWhile is_digit (dropWhile is_space s)
      in if ds = [] then None else Some (parse_digits ds))"

section \<open>Data model\<close>

datatype priority = Critical | High | Medium | Low

datatype complexity = Trivial | Small | MediumSize | Large

text \<open>\<open>interface Job\<close>. The field \<open>id\<close> is \<open>job_id\<close> here, \<open>context?\<close> is \<open>job_context\<close>.\<close>

record job =
  job_id :: string
  title :: string
  description :: string
  priority :: priority
  estimatedComplexity :: complexity
  files :: "string list"
  acceptanceCriteria :: "string list"
  job_context :: "string option"

text \<open>\<open>interface IterationResult\<close>; \<open>iteration\<close> is \<open>r_iteration\<close> here.\<close>

record iteration_result =
  r_iteration :: nat
  jobsCompleted :: nat
  jobsFailed :: nat
  branches :: "string list"
  timestamp :: string

section \<open>Branch names\<close>

text \<open>
  \<^verbatim>\<open>const branchName = `emergent/${this.iteration}/${job.id}`;\<close> in \<open>spawnWorker\<close>.
\<close>

definition branchName :: "nat \<Rightarrow> string \<Rightarrow> string" where
  "branchName it jid = ''emergent/'' @ show_nat it @ ''/'' @ jid"

section \<open>The product-state report and the dashboard's reading of it\<close>

text \<open>
  \<open>EmergentBuilder.updateProductState\<close> builds the text of PRODUCT_STATE.md from the
  builder's counter \<open>this.iteration\<close>, its history \<open>this.results\<close> and the result of
  the iteration.
\<close>

definition history_line :: "iteration_result \<Rightarrow> string" where
  "history_line r =
     ''- Iteration '' @ show_nat (r_iteration r) @ '': '' @ show_nat (jobsCompleted r) @
     '' completed, '' @ show_nat (jobsFailed r) @ '' failed''"

definition stateContent :: "nat \<Rightarrow> iteration_result list \<Rightarrow> iteration_result \<Rightarrow> string" where
  "stateContent this_iteration this_results result =
     ''# Product State\<newline>\<newline>Last updated: '' @ timestamp result @
     ''\<newline>Total iterations: '' @ show_nat this_iteration @
     ''\<newline>\<newline>## Latest Iteration (#'' @ show_nat (r_iteration result) @
     '')\<newline>- Jobs completed: '' @ show_nat (jobsCompleted result) @
     ''\<newline>- Jobs failed: '' @ show_nat (jobsFailed result) @
     ''\<newline>- Branches merged: '' @
     (let merged = join '', '' (branches result) in if merged = [] then ''none'' else merged) @
     ''\<newline>\<newline>## History\<newline>'' @ join ''\<newline>'' (map history_line this_results) @
     ''\<newline>''"

text \<open>
  \<open>DashboardServer.updateStateFromFiles\<close> reads the report back with
  \<^verbatim>\<open>content.match(/Total iterations:\s*(\d+)/)\<close>. The match is the leftmost position
  where the label stands, followed by any white space and at least one digit; the
  group is the longest run of digits there. \<open>match_total_iterations\<close> returns the
  group, or \<open>None\<close> for \<open>null\<close>.
\<close>

definition total_label :: string where
  "total_label = ''Total iterations:''"

fun match_total_iterations :: "string \<Rightarrow> string option" where
  "match_total_iterations [] = None"
| "match_total_iterations (c # cs) =
     (if prefix total_label (c # cs) then
        (let ds = takeWhile is_digit (dropWhile is_space (drop (length total_label) (c # cs)))
         in if ds \<noteq> [] then Some ds else match_total_iterations cs)
      else match_total_iterations cs)"

text \<open>
  The part of \<open>updateStateFromFiles\<close> that sets \<open>currentState.iteration\<close>: the file
  may be missing (\<open>None\<close>), the pattern may not match; in both cases the number stays.
  A \<open>NaN\<close> from \<open>parseInt\<close> cannot arise (the group has a digit); the model keeps the
  number there.
\<close>

definition read_iteration :: "string option \<Rightarrow> nat \<Rightarrow> nat" where
  "read_iteration product_state_file current =
     (case product_state_file of
        None \<Rightarrow> current
      | Some content \<Rightarrow>
          (case match_total_iterations content of
             None \<Rightarrow> current
           | Some g \<Rightarrow> (case parseInt g of None \<Rightarrow> current | Some n \<Rightarrow> n)))"

text \<open>
  The characters of a \<open>Date.prototype.toISOString\<close> result
  (\<open>YYYY-MM-DDTHH:mm:ss.sssZ\<close>, with a sign for years outside four digits).
\<close>

definition iso_timestamp_chars :: "string \<Rightarrow> bool" where
  "iso_timestamp_chars ts = list_all (\<lambda>c. c \<in> set ''0123456789-+:.TZ'') ts"

section \<open>The dashboard's HTTP surface\<close>

subsection \<open>Node's \<open>path\<close> module (POSIX)\<close>

text \<open>
  \<open>serveStatic\<close> calls \<open>path.join\<close> and \<open>path.extname\<close> of the Node.js standard
  library. They are modelled after Node's \<open>path.posix\<close>: \<open>join\<close> glues its non-empty
  arguments with a slash and normalises the result; \<open>normalize\<close> drops empty and \<open>.\<close>
  segments, lets a \<open>..\<close> segment cancel the segment before it (a relative path keeps
  the \<open>..\<close> segments that have nothing to cancel), and keeps a trailing slash.
\<close>

fun split_sep :: "string \<Rightarrow> string list" where
  "split_sep [] = [[]]"
| "split_sep (c # cs) =
     (if c = CHR ''/'' then [] # split_sep cs
      else (case split_sep cs of [] \<Rightarrow> [[c]] | s # ss \<Rightarrow> (c # s) # ss))"

text \<open>The accumulator \<open>res\<close> holds the segments kept so far, the last one first.\<close>

fun normalize_segments :: "bool \<Rightarrow> string list \<Rightarrow> string list \<Rightarrow> string list" where
  "normalize_segments allowAboveRoot res [] = rev res"
| "normalize_segments allowAboveRoot res (seg # segs) =
     (if seg = [] \<or> seg = ''.'' then normalize_segments allowAboveRoot res segs
      else if seg = ''..'' then
        (case res of
           [] \<Rightarrow> normalize_segments allowAboveRoot (if allowAboveRoot then [''..''] else []) segs
         | lastSeg # below \<Rightarrow>
             if lastSeg \<noteq> ''..'' then normalize_segments allowAboveRoot below segs
             else normalize_segments allowAboveRoot (if allowAboveRoot then ''..'' # res else res) segs)
      else normalize_segments allowAboveRoot (seg # res) segs)"

text \<open>What every segment of a normalised path is: not empty, not \<open>.\<close>, without a slash.\<close>

definition plain_seg :: "string \<Rightarrow> bool" where
  "plain_seg s = (s \<noteq> [] \<and> s \<noteq> ''.'' \<and> CHR ''/'' \<notin> set s)"

definition path_normalize :: "string \<Rightarrow> string" where
  "path_normalize path =
     (if path = [] then ''.''
      else
        (let isAbsolute = (hd path = CHR ''/'');
             trailingSeparator = (last path = CHR ''/'');
             p = join ''/'' (normalize_segments (\<not> isAbsolute) [] (split_sep path))
         in if p = [] then (if isAbsolute then ''/'' else if trailingSeparator then ''./'' else ''.'')
            else (if isAbsolute then ''/'' else []) @ p @ (if trailingSeparator then ''/'' else [])))"

definition path_join :: "string list \<Rightarrow> string" where
  "path_join args =
     (let joined = join ''/'' (filter (\<lambda>a. a \<noteq> []) args)
      in if joined = [] then ''.'' else path_normalize joined)"

text \<open>
  \<open>path.extname\<close>: from the last dot of the last path component to its end; empty when
  the component has no dot, starts with its only dot, or is \<open>..\<close>.
\<close>

definition path_extname :: "string \<Rightarrow> string" where
  "path_extname path =
     (let trimmed = rev (dropWhile (\<lambda>c. c = CHR ''/'') (rev path));
          base = rev (takeWhile (\<lambda>c. c \<noteq> CHR ''/'') (rev trimmed));
          ext = rev (takeWhile (\<lambda>c. c \<noteq> CHR ''.'') (rev base))
      in if CHR ''.'' \<notin> set base \<or> base = ''..'' \<or> length ext + 1 = length base then []
         else CHR ''.'' # ext)"

subsection \<open>\<open>DashboardServer.serveStatic\<close> and the request handler\<close>

definition PUBLIC_DIR :: string where
  "PUBLIC_DIR = ''./dashboard/public''"

datatype body = Plain string | FileContents string | StateJson | JobsJson string

record response =
  status :: nat
  contentType :: string
  body :: body

definition contentTypeOf :: "string \<Rightarrow> string" where
  "contentTypeOf ext =
     (if ext = ''.html'' then ''text/html''
      else if ext = ''.js'' then ''application/javascript''
      else if ext = ''.css'' then ''text/css''
      else if ext = ''.json'' then ''application/json''
      else ''text/plain'')"

text \<open>
  \<open>disk\<close> is the file system the dashboard process reads (path to contents);
  \<open>url\<close> is \<open>req.url\<close> (\<open>None\<close> for \<open>undefined\<close>). The result is the response and
  the list of paths handed to \<open>fs.readFile\<close>.
\<close>

definition serveStatic :: "(string \<rightharpoonup> string) \<Rightarrow> string option \<Rightarrow> response \<times> string list" where
  "serveStatic disk url =
     (let requested =
            (if url = Some ''/'' then ''/index.html''
             else (case url of None \<Rightarrow> ''/index.html''
                   | Some u \<Rightarrow> if u = [] then ''/index.html'' else u));
          filePath = path_join [PUBLIC_DIR, requested]
      in if \<not> prefix PUBLIC_DIR filePath then
           (\<lparr>status = 403, contentType = ''text/plain'', body = Plain ''Forbidden''\<rparr>, [])
         else
           (case disk filePath of
              None \<Rightarrow> (\<lparr>status = 404, contentType = ''text/plain'', body = Plain ''Not Found''\<rparr>, [filePath])
            | Some data \<Rightarrow>
                (\<lparr>status = 200, contentType = contentTypeOf (path_extname filePath),
                  body = FileContents data\<rparr>, [filePath])))"

text \<open>The callback of \<open>http.createServer\<close> in \<open>setupHttpServer\<close>.\<close>

definition handle_request :: "(string \<rightharpoonup> string) \<Rightarrow> string option \<Rightarrow> response \<times> string list" where
  "handle_request disk url =
     (if url = Some ''/api/state'' then
        (\<lparr>status = 200, contentType = ''application/json'', body = StateJson\<rparr>, [])
      else if (case url of None \<Rightarrow> False | Some u \<Rightarrow> prefix ''/api/jobs/'' u) then
        (\<lparr>status = 200, contentType = ''application/json'',
          body = JobsJson (last (split_sep (the url)))\<rparr>, [])
      else serveStatic disk url)"

section \<open>The coordinator's world\<close>

subsection \<open>The jobs directory\<close>

text \<open>
  The four directories \<open>pending\<close>, \<open>in-progress\<close>, \<open>completed\<close>, \<open>failed\<close> under
  \<open>CONFIG.jobsDir\<close>. A directory maps a job id to the job record stored in the file
  \<open>${id}.json\<close>; a job has no status field, its state is the directory that holds its
  file. The key of a record is the name of its file without the extension.
\<close>

datatype bucket = Pending | InProgress | Completed | Failed

definition all_buckets :: "bucket list" where
  "all_buckets = [Pending, InProgress, Completed, Failed]"

definition bucket_name :: "bucket \<Rightarrow> string" where
  "bucket_name b =
     (case b of Pending \<Rightarrow> ''pending'' | InProgress \<Rightarrow> ''in-progress''
      | Completed \<Rightarrow> ''completed'' | Failed \<Rightarrow> ''failed'')"

type_synonym jobs_dir = "bucket \<Rightarrow> string \<rightharpoonup> job"

definition bucket_named :: "string \<Rightarrow> bucket option" where
  "bucket_named s =
     (if s = ''pending'' then Some Pending else if s = ''in-progress'' then Some InProgress
      else if s = ''completed'' then Some Completed else if s = ''failed'' then Some Failed
      else None)"

text \<open>
  Where a path under the jobs directory ends once the operating system has resolved it:
  at a file of one of the four directories, at a file outside them, or nowhere (the
  call that uses the path throws).
\<close>

datatype target = InBucket bucket string | Outside | Unreachable

subsection \<open>The event bus (\<open>CoordinatorEvents\<close>)\<close>

datatype event_data =
    IterationStart nat
  | IterationComplete iteration_result
  | JobCreated job
  | JobStatus string bucket
  | WorkerSpawned string string
  | MergeStart "string list"
  | MergeComplete bool nat nat

record dashboard_event =
  ev_timestamp :: string
  ev_type :: string
  ev_data :: event_data

text \<open>
  An \<open>EventEmitter\<close>: \<open>listeners\<close> are the registrations \<open>on(name, listener)\<close> in the
  order they were made, a listener being a number; \<open>delivered\<close> is the trace of listener
  calls, oldest first. \<open>emit name ev\<close> calls the listeners registered under \<open>name\<close>,
  synchronously and in order.
\<close>

record emitter =
  enabled :: bool
  listeners :: "(string \<times> nat) list"
  delivered :: "(nat \<times> dashboard_event) list"

definition listeners_of :: "emitter \<Rightarrow> string \<Rightarrow> nat list" where
  "listeners_of em name = map snd (filter (\<lambda>r. fst r = name) (listeners em))"

definition listenerCount :: "emitter \<Rightarrow> string \<Rightarrow> nat" where
  "listenerCount em name = length (listeners_of em name)"

definition emit :: "string \<Rightarrow> dashboard_event \<Rightarrow> emitter \<Rightarrow> emitter" where
  "emit name ev em = em\<lparr>delivered := delivered em @ map (\<lambda>l. (l, ev)) (listeners_of em name)\<rparr>"

text \<open>
  \<open>CoordinatorEvents.emitEvent\<close>: a no-op if the bus is disabled or nobody listens,
  else the event goes to the listeners of its type and then to the wildcard listeners.
  \<open>now\<close> is what \<open>new Date().toISOString()\<close> returns.
\<close>

definition emitEvent :: "string \<Rightarrow> string \<Rightarrow> event_data \<Rightarrow> emitter \<Rightarrow> emitter" where
  "emitEvent now type data em =
     (if \<not> enabled em \<or> (listenerCount em ''*'' = 0 \<and> listenerCount em type = 0) then em
      else
        (let event = \<lparr>ev_timestamp = now, ev_type = type, ev_data = data\<rparr>
         in emit ''*'' event (emit type event em)))"

subsection \<open>Commands, errors, the state and its environment\<close>

text \<open>The commands the coordinator runs in its own Sprite with \<open>execFile\<close>.\<close>

datatype command =
    GitClone
  | Find
  | Cat string
  | GitFetchAll
  | GitMerge string
  | GitMergeAbort
  | GitPush
  | Checkpoint string

datatype error =
    NotInitialized
  | FileNotFound string
  | CommandFailed command
  | SpriteCreateFailed string
  | SpriteDeleteFailed string
  | WriteFailed string

datatype line = Out string | Err string

text \<open>
  The state of the coordinator process and of what it writes: the jobs directory, the
  event bus, the console, the coordinator's Sprite and the commands run in it, the
  Sprites alive, and the fields \<open>iteration\<close> and \<open>results\<close> of \<open>EmergentBuilder\<close>,
  and the file PRODUCT_STATE.md.
\<close>

record world =
  jobs_dir :: jobs_dir
  events :: emitter
  console :: "line list"
  coordinatorSprite :: "string option"
  commands :: "command list"
  sprites :: "string list"
  iteration :: nat
  results :: "iteration_result list"
  product_state :: "string option"

text \<open>
  The steps of a worker inside the \<open>try\<close> block of \<open>spawnWorker\<close>, each of which may
  throw; \<open>ListFiles\<close> runs only for a job that declares no files.
\<close>

datatype step =
    ConfigName | ConfigEmail | Clone | Checkout | ListFiles | Oracle
  | WriteScript | RunScript | Add | Commit | Push

text \<open>
  How one worker runs, as the environment decides it: whether its Sprite can be created,
  the step that throws (if any), whether the Sprite can be deleted, and the time at
  which its promise settles.
\<close>

record worker_run =
  create_ok :: bool
  failing_step :: "step option"
  delete_ok :: bool
  finish_time :: nat

text \<open>
  Everything outside the coordinator: \<open>CONFIG\<close>, the clock, the execution-environment
  provider (whether a Sprite has \<open>checkpoint\<close>, whether a command run after a given
  history of commands succeeds, the files \<open>find\<close> lists), the oracle's answer to the
  analysis call of an iteration (\<open>None\<close>: the call throws), \<open>JSON.parse\<close> (\<open>None\<close>: it
  throws; a parsed array is taken as an array of jobs, as the cast in the source does),
  the run of the worker for the job at a given index of an iteration's job list, and
  the file system around the four directories: the longest file name it takes
  (\<open>NAME_MAX\<close>), and where the rest of a path ends that has left the four directories
  through the jobs directory (the components still to walk and the file name).
\<close>

record env =
  maxWorkers :: nat
  maxIterations :: nat
  now :: string
  millis :: nat
  create_coordinator_ok :: bool
  has_checkpoint :: bool
  provider :: "command list \<Rightarrow> command \<Rightarrow> bool"
  project_files :: "string list"
  coordinator_prompt_readable :: bool
  analysis_response :: "nat \<Rightarrow> string option"
  json_parse :: "string \<Rightarrow> job list option"
  worker :: "nat \<Rightarrow> nat \<Rightarrow> worker_run"
  name_max :: nat
  beyond :: "string list \<Rightarrow> string \<Rightarrow> target"

definition console_log :: "string \<Rightarrow> world \<Rightarrow> world" where
  "console_log msg st = st\<lparr>console := console st @ [Out msg]\<rparr>"

definition console_error :: "string \<Rightarrow> world \<Rightarrow> world" where
  "console_error msg st = st\<lparr>console := console st @ [Err msg]\<rparr>"

text \<open>
  \<open>coordinatorSprite.execFile\<close>: the command is run (and recorded); \<open>False\<close> stands
  for the promise rejecting.
\<close>

definition execFile :: "env \<Rightarrow> command \<Rightarrow> world \<Rightarrow> bool \<times> world" where
  "execFile env cmd st = (provider env (commands st) cmd, st\<lparr>commands := commands st @ [cmd]\<rparr>)"

definition emitIterationStart :: "env \<Rightarrow> nat \<Rightarrow> world \<Rightarrow> world" where
  "emitIterationStart env n st =
     st\<lparr>events := emitEvent (now env) ''iteration:start'' (IterationStart n) (events st)\<rparr>"

definition emitIterationComplete :: "env \<Rightarrow> iteration_result \<Rightarrow> world \<Rightarrow> world" where
  "emitIterationComplete env r st =
     st\<lparr>events := emitEvent (now env) ''iteration:complete'' (IterationComplete r) (events st)\<rparr>"

definition emitJobCreated :: "env \<Rightarrow> job \<Rightarrow> world \<Rightarrow> world" where
  "emitJobCreated env j st =
     st\<lparr>events := emitEvent (now env) ''job:created'' (JobCreated j) (events st)\<rparr>"

definition emitJobStatus :: "env \<Rightarrow> string \<Rightarrow> bucket \<Rightarrow> world \<Rightarrow> world" where
  "emitJobStatus env jid b st =
     st\<lparr>events := emitEvent (now env) ''job:status'' (JobStatus jid b) (events st)\<rparr>"

subsection \<open>The job lifecycle store\<close>

text \<open>
  \<open>writeJobFiles\<close> writes each record to the path
  \<^verbatim>\<open>`${CONFIG.jobsDir}/pending/${job.id}.json`\<close>, with nothing that validates the id: the
  operating system resolves the path (POSIX, names case-sensitive, no symbolic links
  under the jobs directory). The text after the last slash is the file name, the
  components before it are walked from \<open>pending\<close>: an empty component or \<open>.\<close> stays,
  \<open>..\<close> goes up to the jobs directory, any other name fails inside one of the four
  directories (they hold files only) and enters the directory of that name from the jobs
  directory, if it is one of the four; what lies further is the environment's.
  \<open>place\<close> is the directory reached: one of the four, or the jobs directory (\<open>None\<close>).
\<close>

fun resolve_from :: "env \<Rightarrow> bucket option \<Rightarrow> string list \<Rightarrow> string \<Rightarrow> target" where
  "resolve_from env place [] name =
     (if name_max env < length name then Unreachable
      else (case place of
              None \<Rightarrow> Outside
            | Some b \<Rightarrow> InBucket b (take (length name - 5) name)))"
| "resolve_from env place (c # cs) name =
     (if c = [] \<or> c = ''.'' then resolve_from env place cs name
      else
        (case place of
           Some b \<Rightarrow> if c = ''..'' then resolve_from env None cs name else Unreachable
         | None \<Rightarrow>
             (case bucket_named c of
                Some b \<Rightarrow> resolve_from env (Some b) cs name
              | None \<Rightarrow> beyond env (c # cs) name)))"

text \<open>
  The file that \<^verbatim>\<open>`${CONFIG.jobsDir}/pending/${id}.json`\<close> names. Node refuses a path
  with a NUL byte.
\<close>

definition job_file :: "env \<Rightarrow> string \<Rightarrow> target" where
  "job_file env jid =
     (if CHR 0x00 \<in> set jid then Unreachable
      else resolve_from env (Some Pending) (butlast (split_sep (jid @ ''.json'')))
             (last (split_sep (jid @ ''.json''))))"

text \<open>
  An id that is a plain file name: no slash, no NUL byte, and short enough for the file
  system with the extension added. Its file is \<open>pending/${id}.json\<close> itself.
\<close>

definition plain_id :: "env \<Rightarrow> string \<Rightarrow> bool" where
  "plain_id env jid =
     (CHR ''/'' \<notin> set jid \<and> CHR 0x00 \<notin> set jid \<and> length jid + 5 \<le> name_max env)"

text \<open>
  \<open>create\<close> is the body of the loop of \<open>writeJobFiles\<close>: \<open>fs.writeFileSync\<close> writes
  the record to the file the path names, whatever the directories hold, or throws;
  then the line is printed and the event emitted.
\<close>

definition create :: "env \<Rightarrow> job \<Rightarrow> world \<Rightarrow> (error + unit) \<times> world" where
  "create env j st =
     (case job_file env (job_id j) of
        Unreachable \<Rightarrow> (Inl (WriteFailed (job_id j)), st)
      | Outside \<Rightarrow>
          (Inr (), emitJobCreated env j
                     (console_log (''Created job: '' @ job_id j @ '' - '' @ title j) st))
      | InBucket b k \<Rightarrow>
          (Inr (), emitJobCreated env j
                     (console_log (''Created job: '' @ job_id j @ '' - '' @ title j)
                       (st\<lparr>jobs_dir := (jobs_dir st)(b := (jobs_dir st b)(k \<mapsto> j))\<rparr>))))"

text \<open>The loop of \<open>writeJobFiles\<close>: a write that throws ends it.\<close>

fun writeJobFiles :: "env \<Rightarrow> job list \<Rightarrow> world \<Rightarrow> (error + unit) \<times> world" where
  "writeJobFiles env [] st = (Inr (), st)"
| "writeJobFiles env (j # js) st =
     (case create env j st of
        (Inl e, st1) \<Rightarrow> (Inl e, st1)
      | (Inr u, st1) \<Rightarrow> writeJobFiles env js st1)"

text \<open>
  \<open>fs.renameSync\<close> of the job's file from one directory to another: the file leaves
  the source and replaces whatever the target held under that name. (A missing source
  throws in Node; every call stands behind \<open>fs.existsSync\<close>.)
\<close>

definition renameSync :: "string \<Rightarrow> bucket \<Rightarrow> bucket \<Rightarrow> jobs_dir \<Rightarrow> jobs_dir" where
  "renameSync jid src dst dir =
     (case dir src jid of
        None \<Rightarrow> dir
      | Some r \<Rightarrow> (dir(src := (dir src)(jid := None)))(dst := ((dir(src := (dir src)(jid := None))) dst)(jid \<mapsto> r)))"

text \<open>
  A transition, as \<open>spawnWorker\<close> writes it three times (pending to in-progress,
  in-progress to completed, in-progress to failed):
  \<^verbatim>\<open>if (fs.existsSync(srcPath)) { fs.renameSync(srcPath, dstPath);
      coordinatorEvents.emitJobStatus(job.id, dst); }\<close>
  There is no \<open>else\<close> branch.
\<close>

definition transition :: "env \<Rightarrow> string \<Rightarrow> bucket \<Rightarrow> bucket \<Rightarrow> world \<Rightarrow> world" where
  "transition env jid src dst st =
     (if jobs_dir st src jid \<noteq> None then
        emitJobStatus env jid dst (st\<lparr>jobs_dir := renameSync jid src dst (jobs_dir st)\<rparr>)
      else st)"

text \<open>The buckets that hold a job id, and how many they are.\<close>

definition buckets_holding :: "world \<Rightarrow> string \<Rightarrow> bucket list" where
  "buckets_holding st jid = filter (\<lambda>b. jobs_dir st b jid \<noteq> None) all_buckets"

definition occupancy :: "world \<Rightarrow> string \<Rightarrow> nat" where
  "occupancy st jid = length (buckets_holding st jid)"

definition held :: "jobs_dir \<Rightarrow> string \<Rightarrow> nat" where
  "held dir jid = length (filter (\<lambda>b. dir b jid \<noteq> None) all_buckets)"

text \<open>
  The operations of the store, and a sequence of them run from a state (a \<open>create\<close>
  that throws leaves the state as it is).
\<close>

datatype store_op = Create job | Transition string bucket bucket

fun apply_op :: "env \<Rightarrow> store_op \<Rightarrow> world \<Rightarrow> world" where
  "apply_op env (Create j) st = snd (create env j st)"
| "apply_op env (Transition jid src dst) st = transition env jid src dst st"

definition run_ops :: "env \<Rightarrow> store_op list \<Rightarrow> world \<Rightarrow> world" where
  "run_ops env ops st = fold (apply_op env) ops st"

text \<open>
  A sequence of operations creates only fresh ids when each \<open>Create\<close> finds the id in
  none of in-progress, completed, failed at the moment it runs.
\<close>

fun creates_fresh :: "env \<Rightarrow> store_op list \<Rightarrow> world \<Rightarrow> bool" where
  "creates_fresh env [] st = True"
| "creates_fresh env (Create j # ops) st =
     (jobs_dir st InProgress (job_id j) = None \<and> jobs_dir st Completed (job_id j) = None \<and>
      jobs_dir st Failed (job_id j) = None \<and> creates_fresh env ops (snd (create env j st)))"
| "creates_fresh env (Transition jid src dst # ops) st =
     creates_fresh env ops (transition env jid src dst st)"

text \<open>The ids a sequence of operations names are all plain file names.\<close>

fun plain_op :: "env \<Rightarrow> store_op \<Rightarrow> bool" where
  "plain_op env (Create j) = plain_id env (job_id j)"
| "plain_op env (Transition jid src dst) = plain_id env jid"
section \<open>The analysis stage\<close>

text \<open>
  \<^verbatim>\<open>textContent.match(/\[[\s\S]*\]/)\<close> in \<open>EmergentBuilder.runAnalysis\<close>: the match
  starts at the first opening bracket and, the star being greedy, ends at the last
  closing bracket of the text; there is none when no closing bracket follows the first
  opening one.
\<close>

definition match_array_greedy :: "string \<Rightarrow> string option" where
  "match_array_greedy text =
     (case dropWhile (\<lambda>c. c \<noteq> CHR ''['') text of
        [] \<Rightarrow> None
      | b # rest \<Rightarrow>
          if CHR '']'' \<in> set rest then Some (b # rev (dropWhile (\<lambda>c. c \<noteq> CHR '']'') (rev rest)))
          else None)"

text \<open>
  \<^verbatim>\<open>output.match(/\[[\s\S]*?\]/)\<close> in the simple runner's \<open>runAnalysis\<close>: the star is
  lazy, the match ends at the first closing bracket after the first opening one.
\<close>

definition match_array_lazy :: "string \<Rightarrow> string option" where
  "match_array_lazy text =
     (case dropWhile (\<lambda>c. c \<noteq> CHR ''['') text of
        [] \<Rightarrow> None
      | b # rest \<Rightarrow>
          if CHR '']'' \<in> set rest then Some (b # takeWhile (\<lambda>c. c \<noteq> CHR '']'') rest @ '']'')
          else None)"

text \<open>
  The end of \<open>EmergentBuilder.runAnalysis\<close>, from the text of the oracle's response
  on: the match, \<open>JSON.parse\<close> of it, and the \<open>catch\<close> around both.
\<close>

definition parse_response :: "env \<Rightarrow> string \<Rightarrow> world \<Rightarrow> job list \<times> world" where
  "parse_response env textContent st =
     (case match_array_greedy textContent of
        None \<Rightarrow>
          ([], console_error (''Response: '' @ take 500 textContent)
                 (console_error ''Failed to find JSON array in response'' st))
      | Some matched \<Rightarrow>
          (case json_parse env matched of
             None \<Rightarrow> ([], console_error ''API call or parsing failed'' st)
           | Some jobs \<Rightarrow>
               (jobs, console_log (''Generated '' @ show_nat (length jobs) @ '' jobs'') st)))"

text \<open>The same part of the simple runner's \<open>runAnalysis\<close>.\<close>

definition parse_output_simple :: "env \<Rightarrow> string \<Rightarrow> world \<Rightarrow> job list \<times> world" where
  "parse_output_simple env output st =
     (case match_array_lazy output of
        None \<Rightarrow> ([], console_log ''No jobs found in analysis output'' st)
      | Some matched \<Rightarrow>
          (case json_parse env matched of
             None \<Rightarrow> ([], console_error ''Failed to parse jobs'' st)
           | Some jobs \<Rightarrow>
               (jobs, console_log (''Generated '' @ show_nat (length jobs) @ '' jobs'') st)))"

text \<open>
  \<open>readCodebaseFromSprite\<close>: \<open>find\<close> lists the project's files (a failure throws),
  then each file is read with \<open>cat\<close>, a failing \<open>cat\<close> being skipped. The text that
  results only feeds the oracle and is not kept.
\<close>

definition readCodebaseFromSprite :: "env \<Rightarrow> world \<Rightarrow> (error + unit) \<times> world" where
  "readCodebaseFromSprite env st =
     (let (found, st1) = execFile env Find st
      in if \<not> found then (Inl (CommandFailed Find), st1)
         else (Inr (), fold (\<lambda>f s. snd (execFile env (Cat f) s)) (project_files env) st1))"

definition runAnalysis :: "env \<Rightarrow> world \<Rightarrow> (error + job list) \<times> world" where
  "runAnalysis env st =
     (if coordinatorSprite st = None then (Inl NotInitialized, st)
      else
        (let st1 = console_log (''Running analysis (iteration '' @ show_nat (iteration st + 1) @ '')...'') st
         in if \<not> coordinator_prompt_readable env then
              (Inl (FileNotFound ''./orchestration/COORDINATOR_PROMPT.md''), st1)
            else
              (case readCodebaseFromSprite env (console_log ''Reading codebase files...'' st1) of
                 (Inl e, st2) \<Rightarrow> (Inl e, st2)
               | (Inr u, st2) \<Rightarrow>
                   (let st3 = console_log ''Calling Claude API for analysis...'' st2
                    in case analysis_response env (iteration st) of
                         None \<Rightarrow> (Inr [], console_error ''API call or parsing failed'' st3)
                       | Some textContent \<Rightarrow>
                           (let (jobs, st4) =
                                  parse_response env textContent
                                    (console_log ''Response received, parsing jobs...'' st3)
                            in (Inr jobs, st4))))))"

text \<open>
  For comparison with \<open>match_array_greedy\<close>: the first top-level array-shaped JSON
  substring of a text, as the specification words it. From the first opening bracket
  the scan keeps the bracket depth, skipping string literals, and stops at the bracket
  that closes the first one. The state is the depth, whether the scan is inside a
  string literal, and whether the last character was a backslash there.
\<close>

fun scan_array :: "nat \<Rightarrow> bool \<Rightarrow> bool \<Rightarrow> string \<Rightarrow> string option" where
  "scan_array depth in_string escaped [] = None"
| "scan_array depth in_string escaped (c # cs) =
     (if in_string then
        (if escaped then map_option ((#) c) (scan_array depth True False cs)
         else if c = CHR 0x5C then map_option ((#) c) (scan_array depth True True cs)
         else if c = CHR 0x22 then map_option ((#) c) (scan_array depth False False cs)
         else map_option ((#) c) (scan_array depth True False cs))
      else if c = CHR 0x22 then map_option ((#) c) (scan_array depth True False cs)
      else if c = CHR ''['' then map_option ((#) c) (scan_array (depth + 1) False False cs)
      else if c = CHR '']'' then
        (if depth \<le> 1 then Some [c] else map_option ((#) c) (scan_array (depth - 1) False False cs))
      else map_option ((#) c) (scan_array depth False False cs))"

definition first_top_level_array :: "string \<Rightarrow> string option" where
  "first_top_level_array text =
     (case dropWhile (\<lambda>c. c \<noteq> CHR ''['') text of
        [] \<Rightarrow> None
      | b # rest \<Rightarrow> map_option ((#) b) (scan_array 1 False False rest))"

section \<open>The merge stage\<close>

text \<open>
  The loop of \<open>mergeBranches\<close> over the branches: a merge that throws is taken for a
  conflict and aborted; an abort that throws leaves the loop (to the outer \<open>catch\<close>),
  which is the result \<open>False\<close>.
\<close>

fun merge_each :: "env \<Rightarrow> string list \<Rightarrow> world \<Rightarrow> bool \<times> world" where
  "merge_each env [] st = (True, st)"
| "merge_each env (b # bs) st =
     (let (merged, st1) = execFile env (GitMerge (''origin/'' @ b)) (console_log (''  Merging '' @ b @ ''...'') st)
      in if merged then merge_each env bs st1
         else
           (let (aborted, st2) =
                  execFile env GitMergeAbort
                    (console_error (''  Merge conflict on '' @ b @ '', skipping'') st1)
            in if aborted then merge_each env bs st2 else (False, st2)))"

definition mergeBranches :: "env \<Rightarrow> string list \<Rightarrow> world \<Rightarrow> bool \<times> world" where
  "mergeBranches env bs st =
     (if coordinatorSprite st = None \<or> bs = [] then (True, st)
      else
        (let (fetched, st1) =
               execFile env GitFetchAll
                 (console_log (''Merging '' @ show_nat (length bs) @ '' branches...'') st)
         in if \<not> fetched then (False, console_error ''Merge failed'' st1)
            else
              (let (merged, st2) = merge_each env bs st1
               in if \<not> merged then (False, console_error ''Merge failed'' st2)
                  else
                    (let (pushed, st3) = execFile env GitPush st2
                     in if pushed then (True, console_log ''Merge complete'' st3)
                        else (False, console_error ''Merge failed'' st3)))))"




text \<open>The commands of the merge stage: fetch, merge, abort, push.\<close>

definition merge_stage_command :: "command \<Rightarrow> bool" where
  "merge_stage_command c =
     (case c of GitFetchAll \<Rightarrow> True | GitMerge b \<Rightarrow> True | GitMergeAbort \<Rightarrow> True
      | GitPush \<Rightarrow> True | _ \<Rightarrow> False)"
section \<open>The dispatch and execution stage\<close>

subsection \<open>One worker\<close>

text \<open>
  \<open>spawnWorker\<close> is an \<open>async\<close> function: called from \<open>batch.map\<close>, it runs up to
  its first \<open>await\<close> (the creation of the worker's Sprite) before the next job's call
  starts, and the rest runs when the awaited promises settle. The model splits it there.

  \<open>spawnWorker_begin\<close>: the synchronous start, which moves the job to in-progress.
\<close>

definition spawnWorker_begin :: "env \<Rightarrow> job \<Rightarrow> world \<Rightarrow> world" where
  "spawnWorker_begin env j st =
     transition env (job_id j) Pending InProgress
       (console_log (''Spawning worker for '' @ job_id j @ '': '' @ title j) st)"

definition worker_name :: "env \<Rightarrow> job \<Rightarrow> string" where
  "worker_name env j = ''worker-'' @ job_id j @ ''-'' @ show_nat (millis env)"

text \<open>Whether the \<open>try\<close> block throws: the failing step must be one the job runs.\<close>

definition worker_fails :: "job \<Rightarrow> worker_run \<Rightarrow> bool" where
  "worker_fails j w =
     (case failing_step w of None \<Rightarrow> False | Some s \<Rightarrow> s \<noteq> ListFiles \<or> files j = [])"

text \<open>The progress lines the \<open>try\<close> block prints before the step that throws.\<close>

definition progress_lines :: "job \<Rightarrow> worker_run \<Rightarrow> string list" where
  "progress_lines j w =
     (let failing = (if worker_fails j w then failing_step w else None)
      in if failing \<in> {Some ConfigName, Some ConfigEmail, Some Clone, Some Checkout} then []
         else [''  Reading files for '' @ job_id j @ ''...''] @
           (if failing = Some ListFiles then []
            else [''  Generating implementation for '' @ job_id j @ ''...''] @
              (if failing = Some Oracle then []
               else [''  Executing changes for '' @ job_id j @ ''...''])))"

text \<open>
  What the promise of \<open>spawnWorker\<close> settles to: a rejection when the Sprite cannot
  be created (the \<open>await\<close> stands before the \<open>try\<close>) or cannot be deleted (in
  \<open>finally\<close>), else the pair of the success flag and the branch name.
\<close>

definition settle_result :: "nat \<Rightarrow> job \<Rightarrow> worker_run \<Rightarrow> error + (bool \<times> string)" where
  "settle_result it j w =
     (if \<not> create_ok w then Inl (SpriteCreateFailed (job_id j))
      else if \<not> delete_ok w then Inl (SpriteDeleteFailed (job_id j))
      else Inr (\<not> worker_fails j w, branchName it (job_id j)))"

text \<open>
  \<open>spawnWorker_settle\<close>: the rest of \<open>spawnWorker\<close>, from the creation of the Sprite
  on. The steps of the \<open>try\<close> block run in the worker's Sprite and on the remote; what
  they leave in the coordinator's world is the move to completed (after the push) or,
  from the \<open>catch\<close>, to failed.
\<close>

definition spawnWorker_settle :: "env \<Rightarrow> job \<Rightarrow> worker_run \<Rightarrow> world \<Rightarrow> world" where
  "spawnWorker_settle env j w st =
     (if \<not> create_ok w then st
      else
        (let st1 = fold console_log (progress_lines j w)
                     (st\<lparr>sprites := sprites st @ [worker_name env j]\<rparr>);
             st2 =
               (if \<not> worker_fails j w then
                  console_log (''Worker '' @ job_id j @ '' completed successfully'')
                    (transition env (job_id j) InProgress Completed st1)
                else
                  transition env (job_id j) InProgress Failed
                    (console_error (''Worker '' @ job_id j @ '' failed'') st1))
         in if delete_ok w then st2\<lparr>sprites := remove1 (worker_name env j) (sprites st2)\<rparr>
            else st2))"

subsection \<open>A batch\<close>

text \<open>
  \<^verbatim>\<open>await Promise.all(batch.map((job) => this.spawnWorker(job)))\<close>: every worker of
  the batch starts, in list order; the workers then settle in the order of their finish
  times (ties in list order). \<open>Promise.all\<close> rejects with the first rejection, else it
  gives the results in list order. The workers of a batch whose promise rejects still
  run to their end; the state returned is the one they leave.

  \<open>offset\<close> is the index of the batch's first job in the job list.
\<close>

definition batch_tasks :: "env \<Rightarrow> nat \<Rightarrow> nat \<Rightarrow> job list \<Rightarrow> (job \<times> worker_run) list" where
  "batch_tasks env it offset batch =
     zip batch (map (worker env it) [offset ..< offset + length batch])"

definition settle_order :: "(job \<times> worker_run) list \<Rightarrow> (job \<times> worker_run) list" where
  "settle_order tasks = sort_key (\<lambda>t. finish_time (snd t)) tasks"

fun first_rejection :: "(error + 'a) list \<Rightarrow> error option" where
  "first_rejection [] = None"
| "first_rejection (Inl e # rs) = Some e"
| "first_rejection (Inr v # rs) = first_rejection rs"

fun fulfilled :: "(error + 'a) list \<Rightarrow> 'a list" where
  "fulfilled [] = []"
| "fulfilled (Inl e # rs) = fulfilled rs"
| "fulfilled (Inr v # rs) = v # fulfilled rs"

definition runBatch ::
  "env \<Rightarrow> nat \<Rightarrow> job list \<Rightarrow> world \<Rightarrow> (error + (bool \<times> string) list) \<times> world" where
  "runBatch env offset batch st =
     (let tasks = batch_tasks env (iteration st) offset batch;
          st1 = fold (spawnWorker_begin env) batch st;
          st2 = fold (\<lambda>t. spawnWorker_settle env (fst t) (snd t)) (settle_order tasks) st1
      in (case first_rejection (map (\<lambda>t. settle_result (iteration st) (fst t) (snd t)) (settle_order tasks)) of
            Some e \<Rightarrow> Inl e
          | None \<Rightarrow> Inr (fulfilled (map (\<lambda>t. settle_result (iteration st) (fst t) (snd t)) tasks)),
          st2))"

subsection \<open>\<open>runWorkers\<close>\<close>

text \<open>The inner loop over the results of a batch.\<close>

definition collect :: "string list \<times> nat \<Rightarrow> (bool \<times> string) list \<Rightarrow> string list \<times> nat" where
  "collect acc rs =
     foldl (\<lambda>(bs, failed) (success, branch).
              if success then (bs @ [branch], failed) else (bs, failed + 1)) acc rs"

text \<open>
  The outer loop, \<^verbatim>\<open>for (let i = 0; i < jobs.length; i += CONFIG.maxWorkers)\<close>, with its
  two accumulators. With \<open>maxWorkers = 0\<close> and a job left the loop never ends: no
  result (\<open>None\<close>).
\<close>

definition batch_header :: "env \<Rightarrow> nat \<Rightarrow> job list \<Rightarrow> string" where
  "batch_header env i batch =
     CHR 0x0A # ''Processing batch '' @ show_nat (i div maxWorkers env + 1) @
     '' ('' @ show_nat (length batch) @ '' jobs)''"

partial_function (option) runWorkers_from ::
  "env \<Rightarrow> job list \<Rightarrow> nat \<Rightarrow> string list \<times> nat \<Rightarrow> world \<Rightarrow>
   ((error + string list \<times> nat) \<times> world) option" where
  "runWorkers_from env jobs i acc st =
     (if i < length jobs then
        (let batch = take (maxWorkers env) (drop i jobs)
         in case runBatch env i batch (console_log (batch_header env i batch) st) of
              (Inl e, st2) \<Rightarrow> Some (Inl e, st2)
            | (Inr rs, st2) \<Rightarrow> runWorkers_from env jobs (i + maxWorkers env) (collect acc rs) st2)
      else Some (Inr acc, st))"

definition runWorkers ::
  "env \<Rightarrow> job list \<Rightarrow> world \<Rightarrow> ((error + string list \<times> nat) \<times> world) option" where
  "runWorkers env jobs st = runWorkers_from env jobs 0 ([], 0) st"

subsection \<open>The dispatch, batch by batch\<close>

text \<open>
  For comparison with the loop: the partition of a job list into consecutive batches of
  \<open>w\<close> jobs, the last one holding what is left; and the run of a list of batches one
  after the other, each batch starting in the state the batch before it left, the first
  one at index \<open>i\<close> of the job list. A rejection ends the run.
\<close>

fun batches :: "nat \<Rightarrow> 'a list \<Rightarrow> 'a list list" where
  "batches w [] = []"
| "batches w (x # xs) =
     (if w = 0 then [] else take w (x # xs) # batches w (drop w (x # xs)))"

fun dispatch ::
  "env \<Rightarrow> nat \<Rightarrow> job list list \<Rightarrow> string list \<times> nat \<Rightarrow> world \<Rightarrow>
   (error + string list \<times> nat) \<times> world" where
  "dispatch env i [] acc st = (Inr acc, st)"
| "dispatch env i (batch # rest) acc st =
     (case runBatch env i batch (console_log (batch_header env i batch) st) of
        (Inl e, st2) \<Rightarrow> (Inl e, st2)
      | (Inr rs, st2) \<Rightarrow> dispatch env (i + maxWorkers env) rest (collect acc rs) st2)"

text \<open>
  What a batch does to the jobs directory: the moves of its workers, as triples of job
  id, source and target bucket, in the order in which they happen.
\<close>

type_synonym move = "string \<times> bucket \<times> bucket"

definition apply_moves :: "move list \<Rightarrow> jobs_dir \<Rightarrow> jobs_dir" where
  "apply_moves ms dir = fold (\<lambda>m. renameSync (fst m) (fst (snd m)) (snd (snd m))) ms dir"











section \<open>The iteration controller\<close>

definition updateProductState :: "iteration_result \<Rightarrow> world \<Rightarrow> world" where
  "updateProductState result st =
     st\<lparr>product_state := Some (stateContent (iteration st) (results st) result)\<rparr>"

text \<open>
  \<open>checkpoint\<close>: nothing without a coordinator, nothing when the Sprite has no
  \<open>checkpoint\<close> function; else the call, which may throw.
\<close>

definition checkpoint :: "env \<Rightarrow> string \<Rightarrow> world \<Rightarrow> (error + unit) \<times> world" where
  "checkpoint env name st =
     (if coordinatorSprite st = None then (Inr (), st)
      else if has_checkpoint env then
        (let (done, st1) = execFile env (Checkpoint name) (console_log (''Creating checkpoint: '' @ name) st)
         in if done then (Inr (), st1) else (Inl (CommandFailed (Checkpoint name)), st1))
      else (Inr (), st))"

definition banner :: "nat \<Rightarrow> string list" where
  "banner n = [CHR 0x0A # replicate 60 CHR ''='', ''ITERATION '' @ show_nat n, replicate 60 CHR ''='']"

text \<open>
  \<open>runIteration\<close>, in two parts. \<open>begin_iteration\<close> is its first half, up to the
  return of \<open>runAnalysis\<close>: \<open>Inl\<close> for an exception, else the job list.
  \<open>finish_iteration\<close> is its second half, from \<open>writeJobFiles\<close> on, for the job list
  the analysis returned. The result is \<open>None\<close> when the dispatch loop does not return,
  \<open>Inl\<close> for an exception, else the flag \<open>continueLoop\<close>.
\<close>

definition begin_iteration :: "env \<Rightarrow> world \<Rightarrow> (error + job list) \<times> world" where
  "begin_iteration env st0 =
     (let st1 = st0\<lparr>iteration := iteration st0 + 1\<rparr>;
          st2 = fold console_log (banner (iteration st1)) (emitIterationStart env (iteration st1) st1)
      in case checkpoint env (''pre-iteration-'' @ show_nat (iteration st2)) st2 of
           (Inl e, st3) \<Rightarrow> (Inl e, st3)
         | (Inr u, st3) \<Rightarrow> runAnalysis env st3)"

definition finish_iteration :: "env \<Rightarrow> job list \<Rightarrow> world \<Rightarrow> ((error + bool) \<times> world) option" where
  "finish_iteration env jobs st =
     (case writeJobFiles env jobs st of
        (Inl e, st0) \<Rightarrow> Some (Inl e, st0)
      | (Inr u0, st0) \<Rightarrow>
     (case runWorkers env jobs st0 of
        None \<Rightarrow> None
      | Some (Inl e, st1) \<Rightarrow> Some (Inl e, st1)
      | Some (Inr (bs, failed), st1) \<Rightarrow>
          (let st2 = snd (mergeBranches env bs st1);
               result = \<lparr>r_iteration = iteration st2, jobsCompleted = length bs,
                         jobsFailed = failed, branches = bs, timestamp = now env\<rparr>;
               st3 = updateProductState result (st2\<lparr>results := results st2 @ [result]\<rparr>)
           in case checkpoint env (''post-iteration-'' @ show_nat (iteration st3)) st3 of
                (Inl e, st4) \<Rightarrow> Some (Inl e, st4)
              | (Inr u, st4) \<Rightarrow>
                  Some (Inr (iteration st4 < maxIterations env),
                        emitIterationComplete env result
                          (fold console_log
                             [CHR 0x0A # ''Iteration '' @ show_nat (iteration st4) @ '' complete'',
                              ''   Jobs completed: '' @ show_nat (length bs),
                              ''   Jobs failed: '' @ show_nat failed] st4)))))"

definition runIteration :: "env \<Rightarrow> world \<Rightarrow> ((error + bool) \<times> world) option" where
  "runIteration env st0 =
     (case begin_iteration env st0 of
        (Inl e, st4) \<Rightarrow> Some (Inl e, st4)
      | (Inr jobs, st4) \<Rightarrow>
          if jobs = [] then Some (Inr False, console_log ''No jobs generated. Stopping.'' st4)
          else finish_iteration env jobs st4)"

text \<open>
  The loop of \<open>run\<close>: \<^verbatim>\<open>while (continueLoop) { continueLoop = await this.runIteration(); }\<close>
  (the pause between iterations is left out). Leaving the loop is the state Stopped.
\<close>

partial_function (option) run_loop :: "env \<Rightarrow> world \<Rightarrow> ((error + unit) \<times> world) option" where
  "run_loop env st =
     (case runIteration env st of
        None \<Rightarrow> None
      | Some (Inl e, st') \<Rightarrow> Some (Inl e, st')
      | Some (Inr continueLoop, st') \<Rightarrow>
          if continueLoop then run_loop env st' else Some (Inr (), st'))"





text \<open>
  What a step of the coordinator leaves alone when it neither persists a job, nor
  records a result, nor touches a Sprite's lifetime, nor emits an event, nor runs a
  command of the merge stage.
\<close>

definition quiet :: "world \<Rightarrow> world \<Rightarrow> bool" where
  "quiet s s' =
     (jobs_dir s' = jobs_dir s \<and> results s' = results s \<and> product_state s' = product_state s \<and>
      sprites s' = sprites s \<and> coordinatorSprite s' = coordinatorSprite s \<and>
      events s' = events s \<and> iteration s' = iteration s \<and>
      filter merge_stage_command (commands s') = filter merge_stage_command (commands s))"
section \<open>Sample data\<close>

text \<open>A job, two event buses, a world and an environment to run the model on.\<close>

definition sample_job :: "string \<Rightarrow> job" where
  "sample_job jid =
     \<lparr>job_id = jid, title = ''Fix login'', description = ''The login form loses focus'',
      priority = High, estimatedComplexity = Small, files = [''src/login.tsx''],
      acceptanceCriteria = [''Focus stays''], job_context = None\<rparr>"

text \<open>A bus nobody listens to (the coordinator run without a dashboard in its process).\<close>

definition quiet_bus :: emitter where
  "quiet_bus = \<lparr>enabled = True, listeners = [], delivered = []\<rparr>"

text \<open>A bus with the dashboard server's wildcard listener, listener 0.\<close>

definition dashboard_bus :: emitter where
  "dashboard_bus = \<lparr>enabled = True, listeners = [(''*'', 0)], delivered = []\<rparr>"

definition start_world :: "emitter \<Rightarrow> world" where
  "start_world bus =
     \<lparr>jobs_dir = (\<lambda>b. Map.empty), events = bus, console = [],
      coordinatorSprite = Some ''coordinator'', commands = [], sprites = [''coordinator''],
      iteration = 0, results = [], product_state = None\<rparr>"

definition calm_worker :: worker_run where
  "calm_worker = \<lparr>create_ok = True, failing_step = None, delete_ok = True, finish_time = 0\<rparr>"

definition calm_env :: env where
  "calm_env =
     \<lparr>maxWorkers = 2, maxIterations = 10, now = ''2025-01-01T00:00:00.000Z'', millis = 0,
      create_coordinator_ok = True, has_checkpoint = False, provider = (\<lambda>h c. True),
      project_files = [], coordinator_prompt_readable = True,
      analysis_response = (\<lambda>n. None), json_parse = (\<lambda>s. None),
      worker = (\<lambda>it i. calm_worker), name_max = 255,
      beyond = (\<lambda>cs name. Unreachable)\<rparr>"

text \<open>
  The JSON text of an array holding \<open>sample_job ''job-001''\<close>, and an environment
  whose \<open>JSON.parse\<close> knows this one text (every other text it is given below is not
  valid JSON) and whose oracle answers the analysis call with a given response.
\<close>

definition quoted :: "string \<Rightarrow> string" where
  "quoted s = CHR 0x22 # s @ [CHR 0x22]"

definition sample_json :: string where
  "sample_json =
     ''[{'' @ quoted ''id'' @ '':'' @ quoted ''job-001'' @ '','' @
     quoted ''title'' @ '':'' @ quoted ''Fix login'' @ '','' @
     quoted ''description'' @ '':'' @ quoted ''The login form loses focus'' @ '','' @
     quoted ''priority'' @ '':'' @ quoted ''high'' @ '','' @
     quoted ''estimatedComplexity'' @ '':'' @ quoted ''small'' @ '','' @
     quoted ''files'' @ '':['' @ quoted ''src/login.tsx'' @ ''],'' @
     quoted ''acceptanceCriteria'' @ '':['' @ quoted ''Focus stays'' @ '']}]''"

definition oracle_env :: "string \<Rightarrow> env" where
  "oracle_env response =
     calm_env\<lparr>analysis_response := (\<lambda>n. Some response),
              json_parse := (\<lambda>s. if s = sample_json then Some [sample_job ''job-001''] else None)\<rparr>"








section \<open>Facts about decimal rendering\<close>

lemma digit_char_is_digit: "d < 10 \<Longrightarrow> is_digit (digit_char d)"
  by (simp add: digit_char_def is_digit_def nth_Cons')

lemma digit_val_digit_char: "d < 10 \<Longrightarrow> digit_val (digit_char d) = d"
  unfolding digit_val_def digit_char_def
  by (simp add: nth_Cons' split: if_splits)

lemma show_nat_digits: "list_all is_digit (show_nat n)"
proof (induction n rule: show_nat.induct)
  case (1 n)
  show ?case
  proof (cases "n < 10")
    case True
    then show ?thesis by (simp add: show_nat.simps [of n] digit_char_is_digit)
  next
    case False
    with 1 show ?thesis
      by (simp add: show_nat.simps [of n] digit_char_is_digit)
  qed
qed

lemma show_nat_nonempty: "show_nat n \<noteq> []"
  by (subst show_nat.simps) simp

lemma parse_digits_snoc: "parse_digits (s @ [c]) = 10 * parse_digits s + digit_val c"
  by (simp add: parse_digits_def)

lemma parse_digits_show_nat: "parse_digits (show_nat n) = n"
proof (induction n rule: show_nat.induct)
  case (1 n)
  show ?case
  proof (cases "n < 10")
    case True
    then show ?thesis
      by (simp add: show_nat.simps [of n] parse_digits_def digit_val_digit_char)
  next
    case False
    with 1 have "parse_digits (show_nat (n div 10)) = n div 10" by simp
    with False show ?thesis
      by (simp add: show_nat.simps [of n] parse_digits_snoc digit_val_digit_char)
  qed
qed

lemma show_nat_inj: "show_nat m = show_nat n \<Longrightarrow> m = n"
  by (metis parse_digits_show_nat)

lemma digit_not_space: "is_digit c \<Longrightarrow> \<not> is_space c"
  by (auto simp: is_digit_def is_space_def)

lemma takeWhile_digits_show_nat:
  "\<not> is_digit c \<Longrightarrow> takeWhile is_digit (show_nat n @ c # rest) = show_nat n"
  using show_nat_digits [of n] by (simp add: takeWhile_append2 list_all_iff)

lemma dropWhile_space_show_nat: "dropWhile is_space (show_nat n @ rest) = show_nat n @ rest"
proof (cases "show_nat n")
  case Nil
  then show ?thesis by (simp add: show_nat_nonempty)
next
  case (Cons d ds)
  with show_nat_digits [of n] have "is_digit d" by simp
  with Cons show ?thesis by (simp add: digit_not_space)
qed

lemma parseInt_show_nat: "parseInt (show_nat n) = Some n"
proof -
  have a: "dropWhile is_space (show_nat n) = show_nat n"
    using dropWhile_space_show_nat [of n "[]"] by simp
  have "\<forall>c \<in> set (show_nat n). is_digit c"
    using show_nat_digits [of n] by (simp add: list_all_iff)
  then have b: "takeWhile is_digit (show_nat n) = show_nat n"
    by (simp add: takeWhile_eq_all_conv)
  show ?thesis
    unfolding parseInt_def a b
    by (simp add: show_nat_nonempty parse_digits_show_nat)
qed

section \<open>Branch names are injective\<close>

lemma split_at_separator:
  assumes "xs @ c # ys = xs' @ c # ys'" and "c \<notin> set xs" and "c \<notin> set xs'"
  shows "xs = xs' \<and> ys = ys'"
proof -
  have "takeWhile (\<lambda>x. x \<noteq> c) (xs @ c # ys) = xs"
    using assms(2) by (induction xs) auto
  moreover have "takeWhile (\<lambda>x. x \<noteq> c) (xs' @ c # ys') = xs'"
    using assms(3) by (induction xs') auto
  ultimately have "xs = xs'" using assms(1) by simp
  with assms(1) show ?thesis by simp
qed

lemma slash_not_in_show_nat: "CHR ''/'' \<notin> set (show_nat n)"
  using show_nat_digits [of n] by (auto simp: is_digit_def list_all_iff)

lemma branchName_eq_iff: "(branchName i a = branchName j b) = (i = j \<and> a = b)"
proof
  assume "branchName i a = branchName j b"
  then have "show_nat i @ CHR ''/'' # a = show_nat j @ CHR ''/'' # b"
    by (simp add: branchName_def)
  then have "show_nat i = show_nat j \<and> a = b"
    by (rule split_at_separator) (rule slash_not_in_show_nat)+
  then show "i = j \<and> a = b" by (simp add: show_nat_inj)
qed simp

text \<open>
  C8 (branch disjointness). The branch name is a function of the iteration number and
  the job id alone, and it is injective in the pair: two jobs of a run that differ in
  the iteration number or in the id get different names. Hence, for the jobs of a run
  listed as pairs (iteration number, job id) without repetition (ids unique within each
  iteration), the derived branch names are pairwise distinct.
\<close>

theorem branch_disjointness:
  "((branchName i a = branchName j b) = (i = j \<and> a = b)) \<and>
   (distinct run_jobs \<longrightarrow> distinct (map (\<lambda>(it, jid). branchName it jid) run_jobs))"
proof -
  have "inj_on (\<lambda>(it, jid). branchName it jid) (set run_jobs)"
    by (auto simp: inj_on_def branchName_eq_iff)
  then show ?thesis
    by (simp add: branchName_eq_iff distinct_map)
qed

theorem branch_disjointness_witness:
  "distinct [(1::nat, ''job-001''), (1, ''job-002''), (2, ''job-001'')] \<and>
   distinct (map (\<lambda>(it, jid). branchName it jid)
     [(1, ''job-001''), (1, ''job-002''), (2, ''job-001'')]) \<and>
   branchName 1 ''job-001'' \<noteq> branchName 2 ''job-001''"
  using branch_disjointness [of 1 "''job-001''" 2 "''job-001''"
      "[(1, ''job-001''), (1, ''job-002''), (2, ''job-001'')]"]
  by simp

section \<open>The iteration number survives the report\<close>

lemma mti_skip:
  "\<not> prefix total_label (c # cs) \<Longrightarrow> match_total_iterations (c # cs) = match_total_iterations cs"
  by simp

lemma total_label_prefixD:
  "prefix total_label (c # cs) \<Longrightarrow> c = CHR ''T'' \<and> cs \<noteq> [] \<and> hd cs = CHR ''o''"
  by (cases cs) (auto simp: total_label_def)

lemma mti_skip_timestamp:
  assumes "iso_timestamp_chars ts"
  shows "match_total_iterations (ts @ CHR 0x0A # rest) = match_total_iterations (CHR 0x0A # rest)"
  using assms
proof (induction ts)
  case Nil
  then show ?case by simp
next
  case (Cons c ts)
  have "\<not> prefix total_label (c # ts @ CHR 0x0A # rest)"
  proof
    assume "prefix total_label (c # ts @ CHR 0x0A # rest)"
    then have "hd (ts @ CHR 0x0A # rest) = CHR ''o''"
      using total_label_prefixD by blast
    with Cons.prems show False
      by (cases ts) (auto simp: iso_timestamp_chars_def)
  qed
  then have "match_total_iterations ((c # ts) @ CHR 0x0A # rest) =
      match_total_iterations (ts @ CHR 0x0A # rest)"
    by simp
  with Cons show ?case by (simp add: iso_timestamp_chars_def)
qed

lemma mti_at_label:
  "match_total_iterations (''Total iterations: '' @ show_nat n @ CHR 0x0A # rest) = Some (show_nat n)"
proof -
  have "takeWhile is_digit (dropWhile is_space (show_nat n @ CHR 0x0A # rest)) = show_nat n"
    by (simp add: dropWhile_space_show_nat takeWhile_digits_show_nat is_digit_def)
  then show ?thesis
    by (simp add: total_label_def is_space_def show_nat_nonempty)
qed

lemma match_total_iterations_stateContent:
  assumes "iso_timestamp_chars (timestamp result)"
  shows "match_total_iterations (stateContent n rs result) = Some (show_nat n)"
proof -
  obtain rest where content: "stateContent n rs result =
      ''# Product State\<newline>\<newline>Last updated: '' @ timestamp result @ CHR 0x0A #
      (''Total iterations: '' @ show_nat n @ CHR 0x0A # rest)"
    by (simp add: stateContent_def)
  have "match_total_iterations (stateContent n rs result) =
      match_total_iterations (timestamp result @ CHR 0x0A #
        (''Total iterations: '' @ show_nat n @ CHR 0x0A # rest))"
    unfolding content by (simp add: total_label_def)
  also have "\<dots> = match_total_iterations (CHR 0x0A #
        (''Total iterations: '' @ show_nat n @ CHR 0x0A # rest))"
    by (rule mti_skip_timestamp [OF assms])
  also have "\<dots> = match_total_iterations (''Total iterations: '' @ show_nat n @ CHR 0x0A # rest)"
    by (simp add: total_label_def)
  also have "\<dots> = Some (show_nat n)"
    by (rule mti_at_label)
  finally show ?thesis .
qed

section \<open>Static files: what \<open>path.join\<close> returns never starts with the public directory\<close>

lemma split_sep_no_slash: "\<forall>s \<in> set (split_sep p). CHR ''/'' \<notin> set s"
  by (induction p) (auto split: list.splits)

lemma normalize_segments_plain:
  "list_all plain_seg res \<Longrightarrow> \<forall>s \<in> set segs. CHR ''/'' \<notin> set s \<Longrightarrow>
   list_all plain_seg (normalize_segments a res segs)"
proof (induction a res segs rule: normalize_segments.induct)
  case (1 a res)
  then show ?case by (simp add: list_all_iff)
next
  case (2 a res seg segs)
  then show ?case
    by (auto simp: plain_seg_def split: list.splits)
qed

lemma join_plain_not_dot_slash:
  assumes "list_all plain_seg segs" and "segs \<noteq> []"
  shows "\<not> prefix ''./'' (join ''/'' segs @ t)"
proof -
  from assms obtain s rest where segs: "segs = s # rest" by (cases segs) auto
  with assms(1) have s: "s \<noteq> []" "s \<noteq> ''.''" "CHR ''/'' \<notin> set s"
    by (simp_all add: plain_seg_def)
  obtain u where j: "join ''/'' segs @ t = s @ u"
    unfolding segs by (cases rest) auto
  from s obtain c s' where cs: "s = c # s'" by (cases s) auto
  show ?thesis
  proof
    assume "prefix ''./'' (join ''/'' segs @ t)"
    then have p: "prefix ''./'' (c # s' @ u)" by (simp add: j cs)
    then have "c = CHR ''.''" by simp
    moreover from p have "prefix ''/'' (s' @ u)" by simp
    ultimately show False using s cs by (cases s') auto
  qed
qed

lemma path_join_public_not_under_PUBLIC_DIR:
  "\<not> prefix PUBLIC_DIR (path_join [PUBLIC_DIR, requested])"
proof -
  define joined where "joined = join ''/'' (filter (\<lambda>a. a \<noteq> []) [PUBLIC_DIR, requested])"
  have hd_joined: "joined \<noteq> [] \<and> hd joined = CHR ''.''"
    by (cases "requested = []") (simp_all add: joined_def PUBLIC_DIR_def)
  define segs where "segs = normalize_segments True [] (split_sep joined)"
  have plain: "list_all plain_seg segs"
    unfolding segs_def by (rule normalize_segments_plain) (simp_all add: split_sep_no_slash)
  have "path_join [PUBLIC_DIR, requested] = path_normalize joined"
    using hd_joined unfolding path_join_def joined_def [symmetric] by (simp add: Let_def)
  also have "\<dots> =
      (if join ''/'' segs = [] then (if last joined = CHR ''/'' then ''./'' else ''.'')
       else join ''/'' segs @ (if last joined = CHR ''/'' then ''/'' else []))"
    using hd_joined unfolding path_normalize_def segs_def by (simp add: Let_def)
  finally have r: "path_join [PUBLIC_DIR, requested] =
      (if join ''/'' segs = [] then (if last joined = CHR ''/'' then ''./'' else ''.'')
       else join ''/'' segs @ (if last joined = CHR ''/'' then ''/'' else []))" .
  show ?thesis
  proof (cases "join ''/'' segs = []")
    case True
    then show ?thesis unfolding r by (simp add: PUBLIC_DIR_def)
  next
    case False
    then have "segs \<noteq> []" by auto
    with plain have "\<not> prefix ''./'' (join ''/'' segs @ (if last joined = CHR ''/'' then ''/'' else []))"
      by (rule join_plain_not_dot_slash)
    moreover have "prefix ''./'' PUBLIC_DIR" by (simp add: PUBLIC_DIR_def)
    ultimately show ?thesis
      using False unfolding r by (auto dest: prefix_order.trans)
  qed
qed

lemma serveStatic_always_forbidden:
  "serveStatic disk url = (\<lparr>status = 403, contentType = ''text/plain'', body = Plain ''Forbidden''\<rparr>, [])"
  by (simp add: serveStatic_def Let_def path_join_public_not_under_PUBLIC_DIR)


text \<open>
  C9 (static files, traversal rejection). The claim asks that a request for a file under
  the public root is answered with the file's contents. \<open>serveStatic\<close> compares the
  normalised path, which \<open>path.join\<close> returns without the leading \<open>./\<close>, with the
  literal \<open>./dashboard/public\<close>: the guard written against directory traversal
  rejects every path. Here the request for \<open>/index.html\<close>, a file present under the
  public root, resolves to \<open>dashboard/public/index.html\<close> and is answered
  403 Forbidden, and nothing is read.
\<close>

theorem static_index_forbidden:
  "path_join [PUBLIC_DIR, ''/index.html''] = ''dashboard/public/index.html'' \<and>
   handle_request [''dashboard/public/index.html'' \<mapsto> ''<html></html>''] (Some ''/index.html'') =
     (\<lparr>status = 403, contentType = ''text/plain'', body = Plain ''Forbidden''\<rparr>, [])"
  by (simp add: handle_request_def serveStatic_always_forbidden PUBLIC_DIR_def path_join_def
      path_normalize_def)

section \<open>What the console and the commands leave alone\<close>

lemma commands_console_log [simp]: "commands (console_log m st) = commands st"
  by (simp add: console_log_def)

lemma commands_console_error [simp]: "commands (console_error m st) = commands st"
  by (simp add: console_error_def)

lemma execFile_fst: "fst (execFile env c st) = provider env (commands st) c"
  by (simp add: execFile_def)

lemma execFile_commands: "commands (snd (execFile env c st)) = commands st @ [c]"
  by (simp add: execFile_def)

section \<open>The job lifecycle store\<close>

lemma jobs_dir_emitJobStatus [simp]: "jobs_dir (emitJobStatus env jid b st) = jobs_dir st"
  by (simp add: emitJobStatus_def)

lemma jobs_dir_emitJobCreated [simp]: "jobs_dir (emitJobCreated env j st) = jobs_dir st"
  by (simp add: emitJobCreated_def)

lemma jobs_dir_console_log [simp]: "jobs_dir (console_log m st) = jobs_dir st"
  by (simp add: console_log_def)

lemma jobs_dir_console_error [simp]: "jobs_dir (console_error m st) = jobs_dir st"
  by (simp add: console_error_def)

lemma jobs_dir_transition:
  "jobs_dir (transition env jid src dst st) = renameSync jid src dst (jobs_dir st)"
  by (simp add: transition_def renameSync_def)

lemma split_sep_plain: "CHR ''/'' \<notin> set s \<Longrightarrow> split_sep s = [s]"
  by (induction s) auto

lemma job_file_plain: "plain_id env jid \<Longrightarrow> job_file env jid = InBucket Pending jid"
proof -
  assume p: "plain_id env jid"
  then have "CHR ''/'' \<notin> set (jid @ ''.json'')" by (simp add: plain_id_def)
  then have "split_sep (jid @ ''.json'') = [jid @ ''.json'']" by (rule split_sep_plain)
  with p show ?thesis by (simp add: job_file_def plain_id_def)
qed

lemma create_plain:
  "plain_id env (job_id j) \<Longrightarrow>
   create env j st =
     (Inr (), emitJobCreated env j
        (console_log (''Created job: '' @ job_id j @ '' - '' @ title j)
          (st\<lparr>jobs_dir := (jobs_dir st)(Pending := (jobs_dir st Pending)(job_id j \<mapsto> j))\<rparr>)))"
  by (simp add: create_def job_file_plain)

lemma jobs_dir_create:
  "plain_id env (job_id j) \<Longrightarrow>
   jobs_dir (snd (create env j st)) = (jobs_dir st)(Pending := (jobs_dir st Pending)(job_id j \<mapsto> j))"
  by (simp add: create_plain)

lemma plain_sample: "plain_id calm_env ''job-007''"
  by (simp add: plain_id_def calm_env_def)

lemma occupancy_held: "occupancy st k = held (jobs_dir st) k"
  by (simp add: occupancy_def buckets_holding_def held_def)

lemma rename_other_key: "k \<noteq> jid \<Longrightarrow> renameSync jid src dst dir b k = dir b k"
  by (simp add: renameSync_def split: option.splits)

lemma rename_absent: "dir src jid = None \<Longrightarrow> renameSync jid src dst dir = dir"
  by (simp add: renameSync_def)

lemma rename_lookup:
  "dir src jid = Some r \<Longrightarrow>
   renameSync jid src dst dir b jid = (if b = dst then Some r else if b = src then None else dir b jid)"
  by (simp add: renameSync_def)

lemma held_rename_other: "k \<noteq> jid \<Longrightarrow> held (renameSync jid src dst dir) k = held dir k"
  by (simp add: held_def rename_other_key)

lemma held_rename_le: "held (renameSync jid src dst dir) k \<le> held dir k"
proof (cases "k = jid")
  case False
  then show ?thesis by (simp add: held_rename_other)
next
  case True
  show ?thesis
  proof (cases "dir src jid")
    case None
    then show ?thesis by (simp add: rename_absent)
  next
    case (Some r)
    then show ?thesis
      unfolding True
      by (cases src; cases dst) (simp_all add: held_def all_buckets_def rename_lookup)
  qed
qed

lemma held_rename_pos:
  assumes "0 < held dir k"
  shows "0 < held (renameSync jid src dst dir) k"
proof (cases "k = jid")
  case False
  then show ?thesis using assms by (simp add: held_rename_other)
next
  case True
  show ?thesis
  proof (cases "dir src jid")
    case None
    then show ?thesis using assms by (simp add: rename_absent)
  next
    case (Some r)
    then show ?thesis
      unfolding True
      by (cases dst) (simp_all add: held_def all_buckets_def rename_lookup)
  qed
qed

lemma held_create_other:
  "k \<noteq> job_id j \<Longrightarrow> held (dir(Pending := (dir Pending)(job_id j \<mapsto> j))) k = held dir k"
  by (simp add: held_def all_buckets_def)

lemma held_create_pos: "0 < held (dir(Pending := (dir Pending)(job_id j \<mapsto> j))) (job_id j)"
  by (simp add: held_def all_buckets_def)

lemma held_create_fresh:
  "dir InProgress (job_id j) = None \<Longrightarrow> dir Completed (job_id j) = None \<Longrightarrow>
   dir Failed (job_id j) = None \<Longrightarrow>
   held (dir(Pending := (dir Pending)(job_id j \<mapsto> j))) (job_id j) = 1"
  by (simp add: held_def all_buckets_def)

lemma run_ops_Cons: "run_ops env (op # ops) st = run_ops env ops (apply_op env op st)"
  by (simp add: run_ops_def)

lemma run_ops_Nil: "run_ops env [] st = st"
  by (simp add: run_ops_def)

lemma all_buckets_UNIV: "set all_buckets = UNIV"
proof -
  have "b \<in> set all_buckets" for b
    by (cases b) (simp_all add: all_buckets_def)
  then show ?thesis by blast
qed

lemma held_pos_iff: "0 < held dir k \<longleftrightarrow> (\<exists>b. dir b k \<noteq> None)"
  by (simp add: held_def filter_empty_conv all_buckets_UNIV)

lemma held_write_keeps: "0 < held dir k \<Longrightarrow> 0 < held (dir(b := (dir b)(x \<mapsto> j))) k"
  unfolding held_pos_iff by (metis fun_upd_apply option.distinct(1))

lemma plain_opD: "list_all (plain_op env) ops \<Longrightarrow> Create j \<in> set ops \<Longrightarrow> plain_id env (job_id j)"
  by (induction ops) auto

lemma create_keeps_held:
  assumes "0 < occupancy st k"
  shows "0 < occupancy (snd (create env j st)) k"
proof (cases "job_file env (job_id j)")
  case (InBucket b x)
  with assms show ?thesis
    by (simp add: create_def occupancy_held held_write_keeps)
next
  case Outside
  with assms show ?thesis by (simp add: create_def occupancy_held)
next
  case Unreachable
  with assms show ?thesis by (simp add: create_def)
qed

lemma apply_op_keeps_held:
  assumes "0 < occupancy st k"
  shows "0 < occupancy (apply_op env op st) k"
proof (cases op)
  case (Create j)
  then show ?thesis
    using assms by (simp add: create_keeps_held)
next
  case (Transition jid src dst)
  then show ?thesis
    using assms by (simp add: occupancy_held jobs_dir_transition held_rename_pos)
qed

lemma run_ops_keeps_held:
  "0 < occupancy st k \<Longrightarrow> 0 < occupancy (run_ops env ops st) k"
proof (induction ops arbitrary: st)
  case Nil
  then show ?case by (simp add: run_ops_Nil)
next
  case (Cons op ops)
  from Cons.prems have "0 < occupancy (apply_op env op st) k"
    by (rule apply_op_keeps_held)
  then have "0 < occupancy (run_ops env ops (apply_op env op st)) k"
    by (rule Cons.IH)
  then show ?case by (simp add: run_ops_Cons)
qed

lemma created_is_held:
  "plain_id env (job_id j) \<Longrightarrow> Create j \<in> set ops \<Longrightarrow>
   0 < occupancy (run_ops env ops st) (job_id j)"
proof (induction ops arbitrary: st)
  case Nil
  then show ?case by simp
next
  case (Cons op ops)
  show ?case
  proof (cases "op = Create j")
    case True
    have "0 < occupancy (snd (create env j st)) (job_id j)"
      using Cons.prems(1) by (simp add: occupancy_held jobs_dir_create held_create_pos)
    then have "0 < occupancy (run_ops env ops (snd (create env j st))) (job_id j)"
      by (rule run_ops_keeps_held)
    then show ?thesis
      using True by (simp add: run_ops_Cons)
  next
    case False
    with Cons.prems have "Create j \<in> set ops" by simp
    with Cons.prems(1) have "0 < occupancy (run_ops env ops (apply_op env op st)) (job_id j)"
      by (rule Cons.IH)
    then show ?thesis by (simp add: run_ops_Cons)
  qed
qed

lemma fresh_ops_exclusive:
  "\<forall>k. occupancy st k \<le> 1 \<Longrightarrow> creates_fresh env ops st \<Longrightarrow> list_all (plain_op env) ops \<Longrightarrow>
   occupancy (run_ops env ops st) k \<le> 1"
proof (induction env ops st arbitrary: k rule: creates_fresh.induct)
  case (1 env st)
  then show ?case by (simp add: run_ops_Nil)
next
  case (2 env j ops st)
  from 2(4) have pl: "plain_id env (job_id j)" by simp
  have "\<forall>k. occupancy (snd (create env j st)) k \<le> 1"
  proof
    fix k
    show "occupancy (snd (create env j st)) k \<le> 1"
    proof (cases "k = job_id j")
      case True
      with 2(3) pl show ?thesis
        by (simp add: occupancy_held jobs_dir_create held_create_fresh)
    next
      case False
      with 2(2) pl show ?thesis
        by (simp add: occupancy_held jobs_dir_create held_create_other)
    qed
  qed
  with 2 show ?case by (simp add: run_ops_Cons)
next
  case (3 env jid src dst ops st)
  have "\<forall>k. occupancy (transition env jid src dst st) k \<le> 1"
  proof
    fix k
    have "occupancy (transition env jid src dst st) k \<le> occupancy st k"
      by (simp add: occupancy_held jobs_dir_transition held_rename_le)
    with 3(2) show "occupancy (transition env jid src dst st) k \<le> 1"
      using le_trans by blast
  qed
  with 3 show ?case by (simp add: run_ops_Cons)
qed

lemma creates_fresh_take: "creates_fresh env ops st \<Longrightarrow> creates_fresh env (take n ops) st"
proof (induction env ops st arbitrary: n rule: creates_fresh.induct)
  case (1 env st)
  then show ?case by simp
next
  case (2 env j ops st)
  then show ?case by (cases n) simp_all
next
  case (3 env jid src dst ops st)
  then show ?case by (cases n) simp_all
qed

text \<open>
  C1 (bucket exclusivity), as the code has it, for ids that are plain file names. At
  every point of a sequence of store operations (after any number \<open>n\<close> of them) a job
  that has been created is held by at least one bucket: never zero. It is held by
  exactly one bucket when the sequence starts from a store in which no id is held twice
  and every \<open>Create\<close> finds its id in none of in-progress, completed, failed.
  (\<open>create\<close> writes to pending without looking at the other buckets: see the
  counterexample.) A job record has no status field; the bucket is its state.
\<close>

theorem bucket_exclusivity:
  "(list_all (plain_op env) ops \<and> Create j \<in> set (take n ops) \<longrightarrow>
      1 \<le> occupancy (run_ops env (take n ops) st) (job_id j)) \<and>
   (list_all (plain_op env) ops \<and> (\<forall>k. occupancy st k \<le> 1) \<and> creates_fresh env ops st \<and>
    Create j \<in> set (take n ops) \<longrightarrow>
      occupancy (run_ops env (take n ops) st) (job_id j) = 1)"
proof (intro conjI impI)
  assume a: "list_all (plain_op env) ops \<and> Create j \<in> set (take n ops)"
  then have "Create j \<in> set ops" by (meson in_set_takeD)
  with a have "plain_id env (job_id j)" by (blast intro: plain_opD)
  with a have "0 < occupancy (run_ops env (take n ops) st) (job_id j)"
    by (simp add: created_is_held)
  then show "1 \<le> occupancy (run_ops env (take n ops) st) (job_id j)" by simp
next
  assume a: "list_all (plain_op env) ops \<and> (\<forall>k. occupancy st k \<le> 1) \<and> creates_fresh env ops st \<and>
    Create j \<in> set (take n ops)"
  then have f: "creates_fresh env (take n ops) st" by (simp add: creates_fresh_take)
  from a have "Create j \<in> set ops" by (meson in_set_takeD)
  with a have pj: "plain_id env (job_id j)" by (blast intro: plain_opD)
  from a have pl: "list_all (plain_op env) (take n ops)"
    by (auto simp: list_all_iff dest: in_set_takeD)
  from a f pl have "occupancy (run_ops env (take n ops) st) (job_id j) \<le> 1"
    using fresh_ops_exclusive [of st env "take n ops" "job_id j"] by blast
  moreover from a pj have "0 < occupancy (run_ops env (take n ops) st) (job_id j)"
    by (simp add: created_is_held)
  ultimately show "occupancy (run_ops env (take n ops) st) (job_id j) = 1" by simp
qed

text \<open>The theorem at work on the life of \<open>job-007\<close>: created, started, completed.\<close>

theorem bucket_exclusivity_witness:
  "list_all (plain_op calm_env)
      [Create (sample_job ''job-007''), Transition ''job-007'' Pending InProgress,
       Transition ''job-007'' InProgress Completed] \<and>
   Create (sample_job ''job-007'') \<in> set (take 3
      [Create (sample_job ''job-007''), Transition ''job-007'' Pending InProgress,
       Transition ''job-007'' InProgress Completed]) \<and>
   (\<forall>k. occupancy (start_world dashboard_bus) k \<le> 1) \<and>
   creates_fresh calm_env
      [Create (sample_job ''job-007''), Transition ''job-007'' Pending InProgress,
       Transition ''job-007'' InProgress Completed] (start_world dashboard_bus) \<and>
   occupancy (run_ops calm_env (take 3
      [Create (sample_job ''job-007''), Transition ''job-007'' Pending InProgress,
       Transition ''job-007'' InProgress Completed]) (start_world dashboard_bus)) ''job-007'' = 1"
  using bucket_exclusivity [of calm_env
      "[Create (sample_job ''job-007''), Transition ''job-007'' Pending InProgress,
        Transition ''job-007'' InProgress Completed]" "sample_job ''job-007''" 3
      "start_world dashboard_bus"]
  by (simp add: occupancy_def buckets_holding_def all_buckets_def start_world_def
      sample_job_def plain_sample jobs_dir_create jobs_dir_transition renameSync_def)

text \<open>
  C1 as stated fails: \<open>job-007\<close> is created, started and completed in one iteration,
  and the next iteration's analysis uses the id again (ids are unique within an
  iteration only). After the second \<open>create\<close> the id is in two buckets, pending and
  completed.
\<close>

theorem bucket_exclusivity_counterexample:
  "buckets_holding
     (run_ops calm_env
        [Create (sample_job ''job-007''), Transition ''job-007'' Pending InProgress,
         Transition ''job-007'' InProgress Completed, Create (sample_job ''job-007'')]
        (start_world quiet_bus)) ''job-007'' = [Pending, Completed]"
  by (simp add: run_ops_def buckets_holding_def all_buckets_def plain_sample jobs_dir_create
      jobs_dir_transition renameSync_def start_world_def sample_job_def)

text \<open>
  An id is not validated. With a slash in it the record goes where the path leads:
  into another bucket, so that one create puts \<open>job-001\<close> in completed; or nowhere,
  and the write throws.
\<close>

lemma create_follows_the_path:
  "job_file calm_env ''../completed/job-001'' = InBucket Completed ''job-001'' \<and>
   jobs_dir (snd (create calm_env (sample_job ''../completed/job-001'') (start_world quiet_bus)))
     Completed ''job-001'' = Some (sample_job ''../completed/job-001'') \<and>
   job_file calm_env ''./a'' = job_file calm_env ''a'' \<and>
   fst (create calm_env (sample_job ''a/b'') (start_world quiet_bus)) = Inl (WriteFailed ''a/b'')"
  by (simp add: job_file_def create_def bucket_named_def calm_env_def sample_job_def)

text \<open>
  Why the ids are to be plain file names: \<open>job-001\<close> is created, and then a job whose
  id leads into completed; each create finds its id in no other bucket, and
  \<open>job-001\<close> is in two buckets.
\<close>

lemma plain_ids_are_needed:
  "creates_fresh calm_env
     [Create (sample_job ''job-001''), Create (sample_job ''../completed/job-001'')]
     (start_world quiet_bus) \<and>
   buckets_holding
     (run_ops calm_env
        [Create (sample_job ''job-001''), Create (sample_job ''../completed/job-001'')]
        (start_world quiet_bus)) ''job-001'' = [Pending, Completed]"
  by (simp add: run_ops_def buckets_holding_def all_buckets_def create_def job_file_def
      bucket_named_def calm_env_def sample_job_def start_world_def emitJobCreated_def
      console_log_def)


lemma console_transition: "console (transition env jid src dst st) = console st"
  by (simp add: transition_def emitJobStatus_def)







section \<open>The iteration number survives the report (continued)\<close>

text \<open>
  C10 (iteration-number round trip). The report that \<open>updateProductState\<close> writes
  carries the builder's iteration counter on its line \<open>Total iterations:\<close>, and the
  dashboard's \<open>updateStateFromFiles\<close> reads exactly that number back from the written
  text, whatever number the dashboard held before. \<open>runIteration\<close> writes the report
  with a result whose iteration number is the counter and whose time stamp comes from
  \<open>toISOString\<close>; the assumption says the latter.
\<close>

theorem iteration_round_trip:
  assumes "iso_timestamp_chars (timestamp result)"
  shows "read_iteration (product_state (updateProductState result st)) current = iteration st"
  using assms
  by (simp add: updateProductState_def read_iteration_def match_total_iterations_stateContent
      parseInt_show_nat)

text \<open>
  The theorem at work on the report of iteration 3.
\<close>

theorem iteration_round_trip_witness:
  "iso_timestamp_chars ''2025-01-01T00:00:00.000Z'' \<and>
   read_iteration (product_state (updateProductState
       \<lparr>r_iteration = 3, jobsCompleted = 2, jobsFailed = 1,
          branches = [''emergent/3/job-001'', ''emergent/3/job-002''],
          timestamp = ''2025-01-01T00:00:00.000Z''\<rparr>
       ((start_world quiet_bus)\<lparr>iteration := 3\<rparr>))) 0 = 3"
  using iteration_round_trip [of
      "\<lparr>r_iteration = 3, jobsCompleted = 2, jobsFailed = 1,
          branches = [''emergent/3/job-001'', ''emergent/3/job-002''],
          timestamp = ''2025-01-01T00:00:00.000Z''\<rparr>"
      "(start_world quiet_bus)\<lparr>iteration := 3\<rparr>" 0]
  by (simp add: iso_timestamp_chars_def start_world_def)

section \<open>The analysis stage: what is matched and what is returned\<close>

lemma dropWhile_not_mem: "c \<notin> set pre \<Longrightarrow> dropWhile (\<lambda>x. x \<noteq> c) (pre @ c # rest) = c # rest"
  by (induction pre) auto

lemma match_array_greedy_span:
  assumes "CHR ''['' \<notin> set pre" and "CHR '']'' \<notin> set post"
  shows "match_array_greedy (pre @ ''['' @ mid @ '']'' @ post) = Some (''['' @ mid @ '']'')"
proof -
  have "dropWhile (\<lambda>c. c \<noteq> CHR '']'') (rev post @ CHR '']'' # rev mid) = CHR '']'' # rev mid"
    using assms(2) by (intro dropWhile_not_mem) simp
  then show ?thesis
    using assms(1) by (simp add: match_array_greedy_def dropWhile_not_mem)
qed

lemma match_array_lazy_span:
  assumes "CHR ''['' \<notin> set pre" and "CHR '']'' \<notin> set mid"
  shows "match_array_lazy (pre @ ''['' @ mid @ '']'' @ post) = Some (''['' @ mid @ '']'')"
proof -
  have "takeWhile (\<lambda>c. c \<noteq> CHR '']'') (mid @ CHR '']'' # post) = mid"
    using assms(2) by (induction mid) auto
  then show ?thesis
    using assms(1) by (simp add: match_array_lazy_def dropWhile_not_mem)
qed

lemma first_bracket_then_close:
  "\<exists>rest. dropWhile (\<lambda>c. c \<noteq> CHR ''['') (pre @ CHR ''['' # mid @ CHR '']'' # post) = CHR ''['' # rest \<and>
          CHR '']'' \<in> set rest"
  by (induction pre) auto

lemma match_array_greedy_None:
  "(match_array_greedy text = None) =
   (\<not> (\<exists>pre mid post. text = pre @ ''['' @ mid @ '']'' @ post))"
proof
  assume none: "match_array_greedy text = None"
  show "\<not> (\<exists>pre mid post. text = pre @ ''['' @ mid @ '']'' @ post)"
  proof
    assume "\<exists>pre mid post. text = pre @ ''['' @ mid @ '']'' @ post"
    then obtain pre mid post where t: "text = pre @ CHR ''['' # mid @ CHR '']'' # post" by auto
    obtain rest where "dropWhile (\<lambda>c. c \<noteq> CHR ''['') text = CHR ''['' # rest" "CHR '']'' \<in> set rest"
      unfolding t using first_bracket_then_close by blast
    with none show False by (simp add: match_array_greedy_def)
  qed
next
  assume no: "\<not> (\<exists>pre mid post. text = pre @ ''['' @ mid @ '']'' @ post)"
  show "match_array_greedy text = None"
  proof (rule ccontr)
    assume "match_array_greedy text \<noteq> None"
    then obtain b rest where d: "dropWhile (\<lambda>c. c \<noteq> CHR ''['') text = b # rest" "CHR '']'' \<in> set rest"
      by (auto simp: match_array_greedy_def split: list.splits if_splits)
    have "\<not> hd (dropWhile (\<lambda>c. c \<noteq> CHR ''['') text) \<noteq> CHR ''[''"
      by (rule hd_dropWhile) (simp add: d(1))
    then have b: "b = CHR ''[''"
      by (simp add: d(1))
    obtain m q where r: "rest = m @ CHR '']'' # q" using d(2) by (meson split_list)
    have "text = takeWhile (\<lambda>c. c \<noteq> CHR ''['') text @ dropWhile (\<lambda>c. c \<noteq> CHR ''['') text"
      by simp
    then have "text = takeWhile (\<lambda>c. c \<noteq> CHR ''['') text @ ''['' @ m @ '']'' @ q"
      unfolding d(1) b r by simp
    with no show False by blast
  qed
qed

lemma match_array_lazy_None:
  "(match_array_lazy text = None) = (match_array_greedy text = None)"
  by (cases "dropWhile (\<lambda>c. c \<noteq> CHR ''['') text")
    (simp_all add: match_array_lazy_def match_array_greedy_def del: dropWhile_eq_Nil_conv)

lemma fst_parse_response:
  "fst (parse_response env text st) =
     (case match_array_greedy text of
        None \<Rightarrow> []
      | Some m \<Rightarrow> (case json_parse env m of None \<Rightarrow> [] | Some jobs \<Rightarrow> jobs))"
  by (simp add: parse_response_def split: option.splits)

lemma fst_parse_output_simple:
  "fst (parse_output_simple env text st) =
     (case match_array_lazy text of
        None \<Rightarrow> []
      | Some m \<Rightarrow> (case json_parse env m of None \<Rightarrow> [] | Some jobs \<Rightarrow> jobs))"
  by (simp add: parse_output_simple_def split: option.splits)

lemma parse_response_logs:
  "length (console st) < length (console (snd (parse_response env text st)))"
  by (simp add: parse_response_def console_log_def console_error_def split: option.splits)

lemma parse_output_simple_logs:
  "length (console st) < length (console (snd (parse_output_simple env text st)))"
  by (simp add: parse_output_simple_def console_log_def console_error_def split: option.splits)

lemma runAnalysis_returns:
  assumes "coordinatorSprite st \<noteq> None" and "coordinator_prompt_readable env"
    and "provider env (commands st) Find" and "analysis_response env (iteration st) = Some text"
  shows "fst (runAnalysis env st) = Inr (fst (parse_response env text st))"
  using assms
  by (simp add: runAnalysis_def readCodebaseFromSprite_def execFile_def Let_def split_def
      fst_parse_response)

text \<open>
  C6 (analysis parse contract), as \<open>EmergentBuilder.runAnalysis\<close> has it. The job list
  is the parse of the substring that the regular expression matches, and the empty list
  when nothing matches or \<open>JSON.parse\<close> throws; a line is printed in every case;
  nothing is thrown: with the coordinator set up and the codebase read, \<open>runAnalysis\<close>
  returns that list for every response text. The substring matched runs from the first
  opening bracket to the last closing bracket of the response; there is no match exactly
  when no closing bracket follows an opening one.
\<close>

theorem analysis_parse_contract:
  "fst (parse_response env text st) =
     (case match_array_greedy text of
        None \<Rightarrow> []
      | Some m \<Rightarrow> (case json_parse env m of None \<Rightarrow> [] | Some jobs \<Rightarrow> jobs)) \<and>
   (CHR ''['' \<notin> set pre \<and> CHR '']'' \<notin> set post \<longrightarrow>
      match_array_greedy (pre @ ''['' @ mid @ '']'' @ post) = Some (''['' @ mid @ '']'')) \<and>
   (match_array_greedy text = None) =
     (\<not> (\<exists>pre mid post. text = pre @ ''['' @ mid @ '']'' @ post)) \<and>
   length (console st) < length (console (snd (parse_response env text st))) \<and>
   (coordinatorSprite st \<noteq> None \<and> coordinator_prompt_readable env \<and>
    provider env (commands st) Find \<and> analysis_response env (iteration st) = Some text \<longrightarrow>
      fst (runAnalysis env st) = Inr (fst (parse_response env text st)))"
  using fst_parse_response [of env "text" st]
    match_array_greedy_span [of pre post mid]
    match_array_greedy_None [of "text"]
    parse_response_logs [of st env "text"]
    runAnalysis_returns [of st env "text"]
  by blast

text \<open>
  The theorem at work: a response with one array between prose, and a response with
  no bracket at all, for which the analysis returns the empty list.
\<close>

theorem analysis_parse_contract_witness:
  "CHR ''['' \<notin> set ''Jobs: '' \<and> CHR '']'' \<notin> set '' done'' \<and>
   match_array_greedy (''Jobs: '' @ ''['' @ ''{}'' @ '']'' @ '' done'') = Some ''[{}]'' \<and>
   coordinatorSprite (start_world quiet_bus) \<noteq> None \<and>
   coordinator_prompt_readable (oracle_env ''I have no suggestions.'') \<and>
   provider (oracle_env ''I have no suggestions.'') (commands (start_world quiet_bus)) Find \<and>
   analysis_response (oracle_env ''I have no suggestions.'') (iteration (start_world quiet_bus)) =
     Some ''I have no suggestions.'' \<and>
   match_array_greedy ''I have no suggestions.'' = None \<and>
   fst (runAnalysis (oracle_env ''I have no suggestions.'') (start_world quiet_bus)) = Inr []"
  using analysis_parse_contract [of "oracle_env ''I have no suggestions.''"
      "''I have no suggestions.''" "start_world quiet_bus" "''Jobs: ''" "'' done''" "''{}''"]
  by (simp add: oracle_env_def calm_env_def start_world_def match_array_greedy_def)

text \<open>
  C6 as stated fails: the substring parsed is not the first top-level array of the
  response. The oracle answers with the array of one job followed by a remark in
  brackets: the first top-level array is the job array, which parses to the job, but the
  greedy match runs on to the last bracket, does not parse, and the analysis returns the
  empty list.
\<close>

theorem analysis_parse_counterexample:
  "first_top_level_array (sample_json @ '' (see [notes])'') = Some sample_json \<and>
   json_parse (oracle_env []) sample_json = Some [sample_job ''job-001''] \<and>
   fst (parse_response (oracle_env []) (sample_json @ '' (see [notes])'') (start_world quiet_bus)) = []"
  by (simp add: first_top_level_array_def sample_json_def quoted_def oracle_env_def calm_env_def
      parse_response_def match_array_greedy_def)

text \<open>
  The simple runner's pattern is the lazy one, although its comment reads "Extract JSON
  from output": the match ends at the first closing bracket, the one that closes the
  \<open>files\<close> of the first job, so a well-formed array of jobs does not parse and the
  runner returns the empty list.
\<close>

lemma simple_runner_cuts_the_array:
  "json_parse (oracle_env []) sample_json = Some [sample_job ''job-001''] \<and>
   match_array_greedy sample_json = Some sample_json \<and>
   match_array_lazy sample_json \<noteq> Some sample_json \<and>
   fst (parse_output_simple (oracle_env []) sample_json (start_world quiet_bus)) = []"
  by (simp add: sample_json_def quoted_def oracle_env_def calm_env_def
      parse_output_simple_def match_array_greedy_def match_array_lazy_def)

section \<open>The merge stage\<close>










text \<open>
  Whatever the merges and the aborts do, also when an abort throws: the stage runs one
  fetch, first, and at most one push.
\<close>

lemma merge_each_commands:
  "\<exists>rest. commands (snd (merge_each env bs st)) = commands st @ rest \<and>
          GitFetchAll \<notin> set rest \<and> GitPush \<notin> set rest"
proof (induction bs arbitrary: st)
  case Nil
  show ?case by simp
next
  case (Cons b bs)
  let ?s1 = "snd (execFile env (GitMerge (''origin/'' @ b)) (console_log (''  Merging '' @ b @ ''...'') st))"
  let ?s2 = "snd (execFile env GitMergeAbort (console_error (''  Merge conflict on '' @ b @ '', skipping'') ?s1))"
  have c1: "commands ?s1 = commands st @ [GitMerge (''origin/'' @ b)]"
    by (simp add: execFile_commands)
  have c2: "commands ?s2 = commands st @ [GitMerge (''origin/'' @ b), GitMergeAbort]"
    by (simp add: execFile_commands)
  from Cons [of ?s1] obtain r1 where r1: "commands (snd (merge_each env bs ?s1)) = commands ?s1 @ r1"
    "GitFetchAll \<notin> set r1" "GitPush \<notin> set r1" by blast
  from Cons [of ?s2] obtain r2 where r2: "commands (snd (merge_each env bs ?s2)) = commands ?s2 @ r2"
    "GitFetchAll \<notin> set r2" "GitPush \<notin> set r2" by blast
  consider (a) "snd (merge_each env (b # bs) st) = snd (merge_each env bs ?s1)"
    | (b) "snd (merge_each env (b # bs) st) = snd (merge_each env bs ?s2)"
    | (c) "snd (merge_each env (b # bs) st) = ?s2"
    by (cases "fst (execFile env (GitMerge (''origin/'' @ b)) (console_log (''  Merging '' @ b @ ''...'') st))";
        cases "fst (execFile env GitMergeAbort (console_error (''  Merge conflict on '' @ b @ '', skipping'') ?s1))")
      (simp_all add: split_def Let_def)
  then show ?case
  proof cases
    case a
    show ?thesis unfolding a r1(1) c1 using r1(2,3)
      by (intro exI [of _ "GitMerge (''origin/'' @ b) # r1"]) simp
  next
    case b
    show ?thesis unfolding b r2(1) c2 using r2(2,3)
      by (intro exI [of _ "[GitMerge (''origin/'' @ b), GitMergeAbort] @ r2"]) simp
  next
    case c
    show ?thesis unfolding c c2
      by (intro exI [of _ "[GitMerge (''origin/'' @ b), GitMergeAbort]"]) simp
  qed
qed

lemma one_fetch_first:
  assumes "coordinatorSprite st \<noteq> None" and "bs \<noteq> []"
  shows "\<exists>rest. commands (snd (mergeBranches env bs st)) = commands st @ GitFetchAll # rest \<and>
           GitFetchAll \<notin> set rest \<and> length (filter (\<lambda>c. c = GitPush) rest) \<le> 1"
proof -
  let ?s1 = "snd (execFile env GitFetchAll
      (console_log (''Merging '' @ show_nat (length bs) @ '' branches...'') st))"
  have c1: "commands ?s1 = commands st @ [GitFetchAll]" by (simp add: execFile_commands)
  obtain r where r: "commands (snd (merge_each env bs ?s1)) = commands ?s1 @ r"
    "GitFetchAll \<notin> set r" "GitPush \<notin> set r"
    using merge_each_commands [of env bs ?s1] by blast
  from assms(1) obtain name where cs: "coordinatorSprite st = Some name" by auto
  have "commands (snd (mergeBranches env bs st)) = commands ?s1 \<or>
        commands (snd (mergeBranches env bs st)) = commands (snd (merge_each env bs ?s1)) \<or>
        commands (snd (mergeBranches env bs st)) = commands (snd (merge_each env bs ?s1)) @ [GitPush]"
    using assms(2) by (simp add: mergeBranches_def cs split_def Let_def execFile_commands)
  then consider (a) "commands (snd (mergeBranches env bs st)) = commands st @ GitFetchAll # []"
    | (b) "commands (snd (mergeBranches env bs st)) = commands st @ GitFetchAll # r"
    | (c) "commands (snd (mergeBranches env bs st)) = commands st @ GitFetchAll # (r @ [GitPush])"
    unfolding r(1) c1 by auto
  then show ?thesis
  proof cases
    case a
    show ?thesis unfolding a by (intro exI [of _ "[]"]) simp
  next
    case b
    have "filter (\<lambda>c. c = GitPush) r = []" using r(3) by (auto simp: filter_empty_conv)
    then show ?thesis unfolding b using r(2) by (intro exI [of _ r]) simp
  next
    case c
    have "filter (\<lambda>c. c = GitPush) r = []" using r(3) by (auto simp: filter_empty_conv)
    then show ?thesis unfolding c using r(2) by (intro exI [of _ "r @ [GitPush]"]) simp
  qed
qed

section \<open>Dispatch: batches, moves and outcomes\<close>


lemma batches_drop_end: "length xs \<le> i \<Longrightarrow> batches w (drop i xs) = []"
  by simp







lemma jobs_dir_fold_console_log [simp]: "jobs_dir (fold console_log ls st) = jobs_dir st"
  by (induction ls arbitrary: st) simp_all

lemma iteration_console_log [simp]: "iteration (console_log m st) = iteration st"
  by (simp add: console_log_def)

lemma iteration_console_error [simp]: "iteration (console_error m st) = iteration st"
  by (simp add: console_error_def)

lemma iteration_fold_console_log [simp]: "iteration (fold console_log ls st) = iteration st"
  by (induction ls arbitrary: st) simp_all

lemma iteration_transition [simp]: "iteration (transition env jid src dst st) = iteration st"
  by (simp add: transition_def emitJobStatus_def)

lemma iteration_create [simp]: "iteration (snd (create env j st)) = iteration st"
  by (simp add: create_def emitJobCreated_def split: target.splits)

lemma iteration_writeJobFiles [simp]: "iteration (snd (writeJobFiles env jobs st)) = iteration st"
proof (induction jobs arbitrary: st)
  case Nil
  show ?case by simp
next
  case (Cons j js)
  obtain r s1 where c: "create env j st = (r, s1)" by (cases "create env j st")
  have "iteration s1 = iteration st" using iteration_create [of env j st] c by simp
  then show ?case by (cases r) (simp_all add: c Cons.IH)
qed

lemma iteration_begin [simp]: "iteration (spawnWorker_begin env j st) = iteration st"
  by (simp add: spawnWorker_begin_def)

lemma iteration_settle [simp]: "iteration (spawnWorker_settle env j w st) = iteration st"
  by (simp add: spawnWorker_settle_def Let_def)

lemma apply_moves_Nil [simp]: "apply_moves [] dir = dir"
  by (simp add: apply_moves_def)







lemma iteration_fold_begin [simp]: "iteration (fold (spawnWorker_begin env) batch st) = iteration st"
  by (induction batch arbitrary: st) simp_all

lemma iteration_fold_settle [simp]:
  "iteration (fold (\<lambda>t. spawnWorker_settle env (fst t) (snd t)) ts st) = iteration st"
  by (induction ts arbitrary: st) simp_all


lemma iteration_runBatch [simp]: "iteration (snd (runBatch env i batch st)) = iteration st"
  by (simp add: runBatch_def Let_def)

















lemma set_settle_order [simp]: "set (settle_order ts) = set ts"
  by (simp add: settle_order_def)




















lemma filter_no_key:
  "x \<notin> set (map f xs) \<Longrightarrow> filter (\<lambda>y. f y = x) xs = []"
  by (auto simp: filter_empty_conv)













lemma results_console_log [simp]: "results (console_log m st) = results st"
  by (simp add: console_log_def)

lemma results_console_error [simp]: "results (console_error m st) = results st"
  by (simp add: console_error_def)

lemma results_fold_console_log [simp]: "results (fold console_log ls st) = results st"
  by (induction ls arbitrary: st) simp_all

lemma results_transition [simp]: "results (transition env jid src dst st) = results st"
  by (simp add: transition_def emitJobStatus_def)

lemma results_create [simp]: "results (snd (create env j st)) = results st"
  by (simp add: create_def emitJobCreated_def split: target.splits)

lemma results_writeJobFiles [simp]: "results (snd (writeJobFiles env jobs st)) = results st"
proof (induction jobs arbitrary: st)
  case Nil
  show ?case by simp
next
  case (Cons j js)
  obtain r s1 where c: "create env j st = (r, s1)" by (cases "create env j st")
  have "results s1 = results st" using results_create [of env j st] c by simp
  then show ?case by (cases r) (simp_all add: c Cons.IH)
qed

lemma results_begin [simp]: "results (spawnWorker_begin env j st) = results st"
  by (simp add: spawnWorker_begin_def)

lemma results_settle [simp]: "results (spawnWorker_settle env j w st) = results st"
  by (simp add: spawnWorker_settle_def Let_def)

lemma results_fold_begin [simp]: "results (fold (spawnWorker_begin env) batch st) = results st"
  by (induction batch arbitrary: st) simp_all

lemma results_fold_settle [simp]:
  "results (fold (\<lambda>t. spawnWorker_settle env (fst t) (snd t)) ts st) = results st"
  by (induction ts arbitrary: st) simp_all

lemma results_runBatch [simp]: "results (snd (runBatch env i batch st)) = results st"
  by (simp add: runBatch_def Let_def)

lemma results_dispatch [simp]: "results (snd (dispatch env i bs acc st)) = results st"
proof (induction env i bs acc st rule: dispatch.induct)
  case (1 env i acc st)
  then show ?case by simp
next
  case (2 env i batch rest acc st)
  let ?st1 = "console_log (batch_header env i batch) st"
  obtain r st2 where rb: "runBatch env i batch ?st1 = (r, st2)" by (cases "runBatch env i batch ?st1")
  have r2: "results st2 = results st"
    using results_runBatch [of env i batch ?st1] rb by simp
  show ?case
  proof (cases r)
    case (Inl e)
    then show ?thesis using rb r2 by simp
  next
    case (Inr rs)
    then show ?thesis using rb r2 2 [of r st2 rs] by simp
  qed
qed

lemma execFile_frame [simp]:
  "jobs_dir (snd (execFile env c st)) = jobs_dir st"
  "results (snd (execFile env c st)) = results st"
  "iteration (snd (execFile env c st)) = iteration st"
  by (simp_all add: execFile_def)

lemma merge_each_frame [simp]:
  "jobs_dir (snd (merge_each env bs st)) = jobs_dir st"
  "results (snd (merge_each env bs st)) = results st"
  "iteration (snd (merge_each env bs st)) = iteration st"
proof -
  have "jobs_dir (snd (merge_each env bs st)) = jobs_dir st \<and>
        results (snd (merge_each env bs st)) = results st \<and>
        iteration (snd (merge_each env bs st)) = iteration st"
  proof (induction bs arbitrary: st)
    case Nil
    then show ?case by simp
  next
    case (Cons b bs)
    show ?case
      by (simp add: split_def Let_def Cons execFile_def console_log_def console_error_def)
  qed
  then show "jobs_dir (snd (merge_each env bs st)) = jobs_dir st"
    "results (snd (merge_each env bs st)) = results st"
    "iteration (snd (merge_each env bs st)) = iteration st"
    by simp_all
qed

lemma mergeBranches_frame [simp]:
  "jobs_dir (snd (mergeBranches env bs st)) = jobs_dir st"
  "results (snd (mergeBranches env bs st)) = results st"
  "iteration (snd (mergeBranches env bs st)) = iteration st"
  by (simp_all add: mergeBranches_def split_def Let_def)


lemma updateProductState_frame [simp]:
  "jobs_dir (updateProductState r st) = jobs_dir st"
  "results (updateProductState r st) = results st"
  "iteration (updateProductState r st) = iteration st"
  by (simp_all add: updateProductState_def)

lemma emitIterationComplete_frame [simp]:
  "jobs_dir (emitIterationComplete env r st) = jobs_dir st"
  "results (emitIterationComplete env r st) = results st"
  "iteration (emitIterationComplete env r st) = iteration st"
  by (simp_all add: emitIterationComplete_def)










section \<open>Partial failure within an iteration\<close>






section \<open>Batches\<close>




section \<open>Stopping\<close>

lemma quiet_refl: "quiet s s"
  by (simp add: quiet_def)

lemma quiet_trans: "quiet a b \<Longrightarrow> quiet b c \<Longrightarrow> quiet a c"
  by (simp add: quiet_def)

lemma quiet_console_log: "quiet s (console_log m s)"
  by (simp add: quiet_def console_log_def)

lemma quiet_console_error: "quiet s (console_error m s)"
  by (simp add: quiet_def console_error_def)

lemma quiet_fold_console_log: "quiet s (fold console_log ms s)"
proof (induction ms arbitrary: s)
  case Nil
  show ?case by (simp add: quiet_refl)
next
  case (Cons m ms)
  have "quiet s (console_log m s)" by (rule quiet_console_log)
  moreover have "quiet (console_log m s) (fold console_log ms (console_log m s))" by (rule Cons.IH)
  ultimately show ?case by (simp add: quiet_trans [of s "console_log m s"])
qed

lemma quiet_execFile: "\<not> merge_stage_command c \<Longrightarrow> quiet s (snd (execFile env c s))"
  by (simp add: quiet_def execFile_def)

lemma quiet_fold_cat: "quiet s (fold (\<lambda>f s. snd (execFile env (Cat f) s)) fs s)"
proof (induction fs arbitrary: s)
  case Nil
  show ?case by (simp add: quiet_refl)
next
  case (Cons f fs)
  have "quiet s (snd (execFile env (Cat f) s))"
    by (rule quiet_execFile) (simp add: merge_stage_command_def)
  moreover have "quiet (snd (execFile env (Cat f) s))
      (fold (\<lambda>f s. snd (execFile env (Cat f) s)) fs (snd (execFile env (Cat f) s)))"
    by (rule Cons.IH)
  ultimately show ?case by (simp add: quiet_trans [of s "snd (execFile env (Cat f) s)"])
qed

lemma quiet_checkpoint: "quiet s (snd (checkpoint env name s))"
proof -
  have "quiet (console_log (''Creating checkpoint: '' @ name) s)
      (snd (execFile env (Checkpoint name) (console_log (''Creating checkpoint: '' @ name) s)))"
    by (rule quiet_execFile) (simp add: merge_stage_command_def)
  with quiet_console_log [of s "''Creating checkpoint: '' @ name"]
  have "quiet s (snd (execFile env (Checkpoint name) (console_log (''Creating checkpoint: '' @ name) s)))"
    by (rule quiet_trans)
  then show ?thesis
    by (simp add: checkpoint_def split_def Let_def quiet_refl)
qed

lemma quiet_readCodebaseFromSprite: "quiet s (snd (readCodebaseFromSprite env s))"
proof -
  have a: "quiet s (snd (execFile env Find s))"
    by (rule quiet_execFile) (simp add: merge_stage_command_def)
  have "quiet (snd (execFile env Find s))
      (fold (\<lambda>f s. snd (execFile env (Cat f) s)) (project_files env) (snd (execFile env Find s)))"
    by (rule quiet_fold_cat)
  with a have "quiet s
      (fold (\<lambda>f s. snd (execFile env (Cat f) s)) (project_files env) (snd (execFile env Find s)))"
    by (rule quiet_trans)
  with a show ?thesis
    by (simp add: readCodebaseFromSprite_def split_def Let_def)
qed

lemma quiet_parse_response: "quiet s (snd (parse_response env t s))"
  by (auto simp: parse_response_def split: option.splits
      intro: quiet_console_log quiet_console_error quiet_trans [OF quiet_console_error quiet_console_error])

lemma quiet_runAnalysis: "quiet s (snd (runAnalysis env s))"
proof (cases "coordinatorSprite s = None \<or> \<not> coordinator_prompt_readable env")
  case True
  then show ?thesis
    by (auto simp: runAnalysis_def Let_def quiet_refl quiet_console_log)
next
  case False
  let ?s1 = "console_log (''Running analysis (iteration '' @ show_nat (iteration s + 1) @ '')...'') s"
  let ?s2 = "console_log ''Reading codebase files...'' ?s1"
  let ?s3 = "snd (readCodebaseFromSprite env ?s2)"
  let ?s4 = "console_log ''Calling Claude API for analysis...'' ?s3"
  let ?s5 = "console_log ''Response received, parsing jobs...'' ?s4"
  have q3: "quiet s ?s3"
    by (meson quiet_trans quiet_console_log quiet_readCodebaseFromSprite)
  have q4: "quiet s ?s4"
    by (meson quiet_trans quiet_console_log q3)
  have q5: "quiet s ?s5"
    by (meson quiet_trans quiet_console_log q4)
  have q6: "quiet s (console_error ''API call or parsing failed'' ?s4)"
    by (meson quiet_trans quiet_console_error q4)
  have q7: "\<And>t. quiet s (snd (parse_response env t ?s5))"
    by (meson quiet_trans quiet_parse_response q5)
  show ?thesis
    using False q3 q6 q7
    by (auto simp: runAnalysis_def Let_def split_def split: prod.splits sum.splits option.splits)
qed

lemma quiet_begin_iteration:
  "quiet (st\<lparr>iteration := iteration st + 1,
            events := emitEvent (now env) ''iteration:start'' (IterationStart (iteration st + 1)) (events st)\<rparr>)
     (snd (begin_iteration env st))"
proof -
  let ?s1 = "emitIterationStart env (iteration st + 1) (st\<lparr>iteration := iteration st + 1\<rparr>)"
  let ?s2 = "fold console_log (banner (iteration st + 1)) ?s1"
  let ?s3 = "snd (checkpoint env (''pre-iteration-'' @ show_nat (iteration ?s2)) ?s2)"
  have e: "?s1 = st\<lparr>iteration := iteration st + 1,
      events := emitEvent (now env) ''iteration:start'' (IterationStart (iteration st + 1)) (events st)\<rparr>"
    by (simp add: emitIterationStart_def)
  have q2: "quiet ?s1 ?s2" by (rule quiet_fold_console_log)
  have q3: "quiet ?s1 ?s3" by (rule quiet_trans [OF q2 quiet_checkpoint])
  have q4: "quiet ?s1 (snd (runAnalysis env ?s3))" by (rule quiet_trans [OF q3 quiet_runAnalysis])
  have "snd (begin_iteration env st) = ?s3 \<or> snd (begin_iteration env st) = snd (runAnalysis env ?s3)"
    by (simp add: begin_iteration_def Let_def split: prod.splits sum.splits)
  with q3 q4 show ?thesis unfolding e by auto
qed

text \<open>
  C2 (stopping law). If the first half of an iteration ends with the analysis returning
  the empty job list, then \<open>runIteration\<close> returns \<open>false\<close> and the loop of \<open>run\<close>
  ends there. The state it ends in is the one the analysis returned in, with the line
  "No jobs generated. Stopping." printed and nothing else done: compared with the state
  before the iteration, no job file was written or moved, no result was recorded, the
  product state was not rewritten, the only event emitted is the start of the
  iteration, and no command of the merge stage was run.
\<close>

theorem stopping_law:
  assumes "begin_iteration env st = (Inr [], st4)"
  shows "\<exists>st'. runIteration env st = Some (Inr False, st') \<and>
     run_loop env st = Some (Inr (), st') \<and>
     st' = console_log ''No jobs generated. Stopping.'' st4 \<and>
     jobs_dir st' = jobs_dir st \<and> results st' = results st \<and>
     product_state st' = product_state st \<and> sprites st' = sprites st \<and>
     iteration st' = iteration st + 1 \<and>
     events st' = emitEvent (now env) ''iteration:start'' (IterationStart (iteration st + 1)) (events st) \<and>
     filter merge_stage_command (commands st') = filter merge_stage_command (commands st)"
proof -
  let ?st' = "console_log ''No jobs generated. Stopping.'' st4"
  have r: "runIteration env st = Some (Inr False, ?st')"
    using assms by (simp add: runIteration_def)
  have l: "run_loop env st = Some (Inr (), ?st')"
    by (subst run_loop.simps) (simp add: r)
  have "quiet (st\<lparr>iteration := iteration st + 1,
            events := emitEvent (now env) ''iteration:start'' (IterationStart (iteration st + 1)) (events st)\<rparr>) st4"
    using quiet_begin_iteration [of env st] assms by simp
  then have "quiet (st\<lparr>iteration := iteration st + 1,
            events := emitEvent (now env) ''iteration:start'' (IterationStart (iteration st + 1)) (events st)\<rparr>) ?st'"
    by (rule quiet_trans) (rule quiet_console_log)
  then have "jobs_dir ?st' = jobs_dir st \<and> results ?st' = results st \<and>
     product_state ?st' = product_state st \<and> sprites ?st' = sprites st \<and>
     iteration ?st' = iteration st + 1 \<and>
     events ?st' = emitEvent (now env) ''iteration:start'' (IterationStart (iteration st + 1)) (events st) \<and>
     filter merge_stage_command (commands ?st') = filter merge_stage_command (commands st)"
    by (simp add: quiet_def)
  with r l show ?thesis by blast
qed

text \<open>
  The theorem at work: the oracle's call fails, which the analysis turns into the
  empty list; the dashboard's listener sees the start of iteration 1 and nothing else.
\<close>

theorem stopping_law_witness:
  "fst (begin_iteration calm_env (start_world dashboard_bus)) = Inr [] \<and>
   (\<exists>st'. runIteration calm_env (start_world dashboard_bus) = Some (Inr False, st') \<and>
      run_loop calm_env (start_world dashboard_bus) = Some (Inr (), st') \<and>
      jobs_dir st' = (\<lambda>b. Map.empty) \<and> results st' = [] \<and> product_state st' = None \<and>
      sprites st' = [''coordinator''] \<and> iteration st' = 1 \<and>
      delivered (events st') =
        [(0, \<lparr>ev_timestamp = ''2025-01-01T00:00:00.000Z'', ev_type = ''iteration:start'',
              ev_data = IterationStart 1\<rparr>)] \<and>
      filter merge_stage_command (commands st') = [])"
proof -
  let ?S = "start_world dashboard_bus"
  have f: "fst (begin_iteration calm_env ?S) = Inr []"
    by (simp add: begin_iteration_def checkpoint_def runAnalysis_def readCodebaseFromSprite_def
        execFile_def emitIterationStart_def calm_env_def start_world_def console_log_def
        console_error_def Let_def split_def banner_def)
  then have h: "begin_iteration calm_env ?S = (Inr [], snd (begin_iteration calm_env ?S))"
    by (simp add: prod_eq_iff)
  from stopping_law [OF h] obtain st' where
    a: "runIteration calm_env ?S = Some (Inr False, st')"
       "run_loop calm_env ?S = Some (Inr (), st')"
    and b: "jobs_dir st' = jobs_dir ?S" "results st' = results ?S"
       "product_state st' = product_state ?S" "sprites st' = sprites ?S"
       "iteration st' = iteration ?S + 1"
       "events st' = emitEvent (now calm_env) ''iteration:start'' (IterationStart (iteration ?S + 1)) (events ?S)"
       "filter merge_stage_command (commands st') = filter merge_stage_command (commands ?S)"
    by blast
  have "jobs_dir st' = (\<lambda>b. Map.empty) \<and> results st' = [] \<and> product_state st' = None \<and>
      sprites st' = [''coordinator''] \<and> iteration st' = 1 \<and>
      delivered (events st') =
        [(0, \<lparr>ev_timestamp = ''2025-01-01T00:00:00.000Z'', ev_type = ''iteration:start'',
              ev_data = IterationStart 1\<rparr>)] \<and>
      filter merge_stage_command (commands st') = []"
    unfolding b
    by (simp add: start_world_def dashboard_bus_def calm_env_def emitEvent_def emit_def
        listenerCount_def listeners_of_def)
  with a f show ?thesis by blast
qed


end
